theory Spec2Isabelle
  imports Complex_Main "HOL-Library.AList" "HOL-Library.Multiset"
begin

section \<open>Raw vendor data and the Python primitives the parser uses\<close>

text \<open>
  The parser of \<^verbatim>\<open>app/parser.py\<close> receives the result of \<^verbatim>\<open>json.load\<close>: nested
  values built from \<^verbatim>\<open>None\<close>, booleans, integers, floats, strings, lists and
  string-keyed dictionaries. A dictionary is an association list in insertion order
  (a Python \<^verbatim>\<open>dict\<close> has distinct keys; a lookup reads the first binding). Floats are
  modelled by the real number they denote (no NaN, no infinities, no rounding).
\<close>

datatype json =
    JNull
  | JBool bool
  | JInt int
  | JFloat real
  | JStr string
  | JArr "json list"
  | JObj "(string \<times> json) list"

text \<open>Every exception the code can raise is a value; \<open>Inl\<close> is a raised exception.\<close>

datatype error =
    AttributeError
  | TypeError
  | KeyError
  | IndexError
  | ValidationError
  | OverflowError
  | OSError
  | ValueError

definition ebind :: "error + 'a \<Rightarrow> ('a \<Rightarrow> error + 'b) \<Rightarrow> error + 'b" where
  "ebind x f = (case x of Inl e \<Rightarrow> Inl e | Inr a \<Rightarrow> f a)"

text \<open>\<^verbatim>\<open>d.get(k, default)\<close> on a dictionary.\<close>

definition dict_get :: "(string \<times> json) list \<Rightarrow> string \<Rightarrow> json \<Rightarrow> json" where
  "dict_get d k dflt = (case map_of d k of Some v \<Rightarrow> v | None \<Rightarrow> dflt)"

text \<open>\<^verbatim>\<open>obj.get(k, default)\<close> on any value: only a \<^verbatim>\<open>dict\<close> has the method.\<close>

definition py_get :: "json \<Rightarrow> string \<Rightarrow> json \<Rightarrow> error + json" where
  "py_get obj k dflt = (case obj of JObj d \<Rightarrow> Inr (dict_get d k dflt) | _ \<Rightarrow> Inl AttributeError)"

text \<open>Truth value of a Python object, as tested by \<^verbatim>\<open>if x\<close> and \<^verbatim>\<open>not x\<close>.\<close>

definition truthy :: "json \<Rightarrow> bool" where
  "truthy v = (case v of
      JNull \<Rightarrow> False
    | JBool b \<Rightarrow> b
    | JInt i \<Rightarrow> i \<noteq> 0
    | JFloat r \<Rightarrow> r \<noteq> 0
    | JStr s \<Rightarrow> s \<noteq> []
    | JArr xs \<Rightarrow> xs \<noteq> []
    | JObj d \<Rightarrow> d \<noteq> [])"

text \<open>\<^verbatim>\<open>v == n\<close> for an integer literal \<open>n\<close>: numbers compare by value, and
  \<^verbatim>\<open>True == 1\<close>, \<^verbatim>\<open>False == 0\<close>.\<close>

definition py_eq_int :: "json \<Rightarrow> int \<Rightarrow> bool" where
  "py_eq_int v n = (case v of
      JInt i \<Rightarrow> i = n
    | JFloat r \<Rightarrow> r = of_int n
    | JBool b \<Rightarrow> (if b then 1 else 0) = n
    | _ \<Rightarrow> False)"

text \<open>The items a \<^verbatim>\<open>for\<close> loop visits: the elements of a list, the keys of a
  dictionary, the characters of a string; anything else is not iterable.\<close>

definition py_iter :: "json \<Rightarrow> error + json list" where
  "py_iter v = (case v of
      JArr xs \<Rightarrow> Inr xs
    | JObj d \<Rightarrow> Inr (map (\<lambda>kv. JStr (fst kv)) d)
    | JStr s \<Rightarrow> Inr (map (\<lambda>c. JStr [c]) s)
    | _ \<Rightarrow> Inl TypeError)"

text \<open>\<^verbatim>\<open>v[0]\<close>: a string-keyed dictionary never has the key \<^verbatim>\<open>0\<close>.\<close>

definition py_getitem0 :: "json \<Rightarrow> error + json" where
  "py_getitem0 v = (case v of
      JArr xs \<Rightarrow> (case xs of [] \<Rightarrow> Inl IndexError | x # _ \<Rightarrow> Inr x)
    | JStr s \<Rightarrow> (case s of [] \<Rightarrow> Inl IndexError | c # _ \<Rightarrow> Inr (JStr [c]))
    | JObj d \<Rightarrow> Inl KeyError
    | _ \<Rightarrow> Inl TypeError)"

section \<open>Library behaviour taken as parameters\<close>

text \<open>
  Two parts of what the parser calls are not code of the repository: the clock and
  time-zone conversion of \<^verbatim>\<open>datetime\<close>, and the way pydantic reads a number out of a
  string. They are parameters of the model: \<open>fromtimestamp\<close> is
  \<^verbatim>\<open>datetime.fromtimestamp\<close> (it may raise), \<open>str_as_int\<close> and \<open>str_as_float\<close> are
  pydantic's lax-mode coercions of a string. The reading of \<^verbatim>\<open>datetime.now()\<close> is
  passed where it is taken. \<open>'dt\<close> is the type of \<^verbatim>\<open>datetime\<close> values.
\<close>

record 'dt pylib =
  fromtimestamp :: "json \<Rightarrow> error + 'dt"
  str_as_int :: "string \<Rightarrow> int option"
  str_as_float :: "string \<Rightarrow> real option"

section \<open>The models of \<^verbatim>\<open>app/models.py\<close>\<close>

text \<open>Field names that clash between the classes, or with HOL, carry a suffix:
  \<open>name_t\<close>, \<open>id_t\<close>, \<open>country_t\<close> of \<^verbatim>\<open>Team\<close>, \<open>type_m\<close> of \<^verbatim>\<open>Market\<close>, \<open>id_m\<close> of
  \<^verbatim>\<open>Match\<close>.\<close>

record Team =
  name_t :: string
  id_t :: int
  image :: "string option"
  country_t :: "int option"

record Market =
  type_m :: int
  outcome :: int
  odds :: real
  parameter :: "real option"
  is_main :: bool

record Markets =
  match_result :: "Market list"
  over_under :: "Market list"
  handicap :: "Market list"
  both_teams_score :: "Market list"
  correct_score :: "Market list"

record Weather =
  temperature :: "string option"
  condition :: "string option"
  humidity :: "string option"
  wind_speed :: "string option"
  pressure :: "string option"
  precipitation :: "string option"

record WinProbabilities =
  home_win :: "real option"
  draw :: "real option"
  away_win :: "real option"

record 'dt Match =
  id_m :: int
  name :: string
  sport :: string
  league :: string
  country :: string
  start_time :: 'dt
  home_team :: Team
  away_team :: Team
  venue :: "string option"
  stage :: "string option"
  probabilities :: "WinProbabilities option"
  markets :: Markets
  weather :: "Weather option"
  is_live :: bool
  event_count :: int

subsection \<open>Field validation of pydantic (version 2, lax mode)\<close>

text \<open>
  Constructing a model validates every field against its annotation and raises
  \<^verbatim>\<open>ValidationError\<close> when one does not fit. An \<^verbatim>\<open>int\<close> field takes an integer, a
  boolean, a float without fractional part, or a string that reads as an integer; a
  \<^verbatim>\<open>float\<close> field takes a number, a boolean, or a string that reads as a float; a
  \<^verbatim>\<open>str\<close> field takes only a string; \<^verbatim>\<open>None\<close> fits only an \<^verbatim>\<open>Optional\<close> field.
\<close>

definition validate_int :: "('dt, 'x) pylib_scheme \<Rightarrow> json \<Rightarrow> error + int" where
  "validate_int lib v = (case v of
      JInt i \<Rightarrow> Inr i
    | JBool b \<Rightarrow> Inr (if b then 1 else 0)
    | JFloat r \<Rightarrow> (if r = of_int \<lfloor>r\<rfloor> then Inr \<lfloor>r\<rfloor> else Inl ValidationError)
    | JStr s \<Rightarrow> (case str_as_int lib s of Some i \<Rightarrow> Inr i | None \<Rightarrow> Inl ValidationError)
    | _ \<Rightarrow> Inl ValidationError)"

definition validate_float :: "('dt, 'x) pylib_scheme \<Rightarrow> json \<Rightarrow> error + real" where
  "validate_float lib v = (case v of
      JInt i \<Rightarrow> Inr (of_int i)
    | JBool b \<Rightarrow> Inr (if b then 1 else 0)
    | JFloat r \<Rightarrow> Inr r
    | JStr s \<Rightarrow> (case str_as_float lib s of Some r \<Rightarrow> Inr r | None \<Rightarrow> Inl ValidationError)
    | _ \<Rightarrow> Inl ValidationError)"

definition validate_str :: "json \<Rightarrow> error + string" where
  "validate_str v = (case v of JStr s \<Rightarrow> Inr s | _ \<Rightarrow> Inl ValidationError)"

definition validate_optional :: "(json \<Rightarrow> error + 'a) \<Rightarrow> json \<Rightarrow> error + 'a option" where
  "validate_optional validate v =
     (case v of JNull \<Rightarrow> Inr None | _ \<Rightarrow> ebind (validate v) (\<lambda>a. Inr (Some a)))"

text \<open>\<^verbatim>\<open>Team(name=..., id=..., image=..., country=...)\<close>\<close>

definition Team_init :: "('dt, 'x) pylib_scheme \<Rightarrow> json \<Rightarrow> json \<Rightarrow> json \<Rightarrow> json \<Rightarrow> error + Team" where
  "Team_init lib name_v id_v image_v country_v =
     ebind (validate_str name_v) (\<lambda>n.
     ebind (validate_int lib id_v) (\<lambda>i.
     ebind (validate_optional validate_str image_v) (\<lambda>img.
     ebind (validate_optional (validate_int lib) country_v) (\<lambda>c.
     Inr \<lparr>name_t = n, id_t = i, image = img, country_t = c\<rparr>))))"

text \<open>\<^verbatim>\<open>Market(type=..., outcome=..., odds=..., parameter=..., is_main=...)\<close>; the caller
  always passes a Python \<^verbatim>\<open>bool\<close> for \<^verbatim>\<open>is_main\<close>.\<close>

definition Market_init ::
  "('dt, 'x) pylib_scheme \<Rightarrow> json \<Rightarrow> json \<Rightarrow> json \<Rightarrow> json \<Rightarrow> bool \<Rightarrow> error + Market" where
  "Market_init lib type_v outcome_v odds_v parameter_v main =
     ebind (validate_int lib type_v) (\<lambda>t.
     ebind (validate_int lib outcome_v) (\<lambda>oc.
     ebind (validate_float lib odds_v) (\<lambda>od.
     ebind (validate_optional (validate_float lib) parameter_v) (\<lambda>p.
     Inr \<lparr>type_m = t, outcome = oc, odds = od, parameter = p, is_main = main\<rparr>))))"

text \<open>\<^verbatim>\<open>Markets()\<close>: five empty lists.\<close>

definition Markets_init :: Markets where
  "Markets_init = \<lparr>match_result = [], over_under = [], handicap = [],
                   both_teams_score = [], correct_score = []\<rparr>"

section \<open>The market classifier\<close>

text \<open>\<^verbatim>\<open>BettingDataParser._categorize_market\<close>: appends the market to the list its type
  code selects. The method mutates \<^verbatim>\<open>markets\<close>; the model returns the new value.\<close>

definition categorize_market :: "Market \<Rightarrow> Markets \<Rightarrow> Markets" where
  "categorize_market market mkts =
     (let market_type = type_m market in
      if market_type = 1 then mkts\<lparr>match_result := match_result mkts @ [market]\<rparr>
      else if market_type \<in> set [15, 62] then mkts\<lparr>over_under := over_under mkts @ [market]\<rparr>
      else if market_type \<in> set [2, 17] then mkts\<lparr>handicap := handicap mkts @ [market]\<rparr>
      else if market_type = 19 then mkts\<lparr>both_teams_score := both_teams_score mkts @ [market]\<rparr>
      else if market_type = 8 then mkts\<lparr>correct_score := correct_score mkts @ [market]\<rparr>
      else mkts)"

text \<open>The table of section 4.2 of the specification, written from its words, and the
  bucket of a \<^verbatim>\<open>Markets\<close> value that a category names.\<close>

datatype category = MatchResult | OverUnder | Handicap | BothTeamsScore | CorrectScore

definition classify_spec :: "int \<Rightarrow> category option" where
  "classify_spec code =
     (if code = 1 then Some MatchResult
      else if code = 15 \<or> code = 62 then Some OverUnder
      else if code = 2 \<or> code = 17 then Some Handicap
      else if code = 19 then Some BothTeamsScore
      else if code = 8 then Some CorrectScore
      else None)"

fun bucket :: "category \<Rightarrow> Markets \<Rightarrow> Market list" where
  "bucket MatchResult mkts = match_result mkts"
| "bucket OverUnder mkts = over_under mkts"
| "bucket Handicap mkts = handicap mkts"
| "bucket BothTeamsScore mkts = both_teams_score mkts"
| "bucket CorrectScore mkts = correct_score mkts"

section \<open>Parsing the markets of a record\<close>

text \<open>The two \<^verbatim>\<open>Market(...)\<close> constructions of \<^verbatim>\<open>_parse_markets\<close>: one from an entry of
  the primary array, one from an entry of the \<^verbatim>\<open>"ME"\<close> array of an additional group,
  which takes its type code from the group and is never a main market.\<close>

definition main_market :: "('dt, 'x) pylib_scheme \<Rightarrow> json \<Rightarrow> error + Market" where
  "main_market lib market_data =
     ebind (py_get market_data ''G'' (JInt 0)) (\<lambda>g.
     ebind (py_get market_data ''T'' (JInt 0)) (\<lambda>t.
     ebind (py_get market_data ''C'' (JFloat 0)) (\<lambda>c.
     ebind (py_get market_data ''P'' JNull) (\<lambda>p.
     ebind (py_get market_data ''CE'' JNull) (\<lambda>ce.
     Market_init lib g t c p (py_eq_int ce 1))))))"

definition additional_market :: "('dt, 'x) pylib_scheme \<Rightarrow> json \<Rightarrow> json \<Rightarrow> error + Market" where
  "additional_market lib market_group market_data =
     ebind (py_get market_group ''G'' (JInt 0)) (\<lambda>g.
     ebind (py_get market_data ''T'' (JInt 0)) (\<lambda>t.
     ebind (py_get market_data ''C'' (JFloat 0)) (\<lambda>c.
     ebind (py_get market_data ''P'' JNull) (\<lambda>p.
     Market_init lib g t c p False))))"

text \<open>The loop over the primary array, from the \<^verbatim>\<open>Markets\<close> value built so far.\<close>

fun main_loop :: "('dt, 'x) pylib_scheme \<Rightarrow> json list \<Rightarrow> Markets \<Rightarrow> error + Markets" where
  "main_loop lib [] mkts = Inr mkts"
| "main_loop lib (market_data # rest) mkts =
     (case main_market lib market_data of
        Inl e \<Rightarrow> Inl e
      | Inr market \<Rightarrow> main_loop lib rest (categorize_market market mkts))"

text \<open>The inner loop over the entries of one group, and the outer loop over the groups.\<close>

fun group_loop ::
  "('dt, 'x) pylib_scheme \<Rightarrow> json \<Rightarrow> json list \<Rightarrow> Markets \<Rightarrow> error + Markets" where
  "group_loop lib market_group [] mkts = Inr mkts"
| "group_loop lib market_group (market_data # rest) mkts =
     (case additional_market lib market_group market_data of
        Inl e \<Rightarrow> Inl e
      | Inr market \<Rightarrow> group_loop lib market_group rest (categorize_market market mkts))"

fun additional_loop :: "('dt, 'x) pylib_scheme \<Rightarrow> json list \<Rightarrow> Markets \<Rightarrow> error + Markets" where
  "additional_loop lib [] mkts = Inr mkts"
| "additional_loop lib (market_group # rest) mkts =
     (case ebind (py_get market_group ''ME'' (JArr [])) py_iter of
        Inl e \<Rightarrow> Inl e
      | Inr entries \<Rightarrow>
          (case group_loop lib market_group entries mkts of
             Inl e \<Rightarrow> Inl e
           | Inr mkts' \<Rightarrow> additional_loop lib rest mkts'))"

text \<open>\<^verbatim>\<open>BettingDataParser._parse_markets\<close>\<close>

definition parse_markets :: "('dt, 'x) pylib_scheme \<Rightarrow> json \<Rightarrow> json \<Rightarrow> error + Markets" where
  "parse_markets lib main_markets additional_markets =
     ebind (py_iter main_markets) (\<lambda>mains.
     ebind (main_loop lib mains Markets_init) (\<lambda>mkts.
     ebind (py_iter additional_markets) (\<lambda>groups.
     additional_loop lib groups mkts)))"

section \<open>Parsing the weather of a record\<close>

text \<open>The loop of \<^verbatim>\<open>_parse_weather\<close>: \<^verbatim>\<open>weather_map\<close> is a dictionary from field names to
  raw values; an assignment replaces the value of a key in place or adds the key at
  the end.\<close>

fun weather_loop :: "json list \<Rightarrow> (string \<times> json) list \<Rightarrow> error + (string \<times> json) list" where
  "weather_loop [] weather_map = Inr weather_map"
| "weather_loop (item # rest) weather_map =
     (case py_get item ''K'' JNull of
        Inl e \<Rightarrow> Inl e
      | Inr key \<Rightarrow>
          (case py_get item ''V'' JNull of
             Inl e \<Rightarrow> Inl e
           | Inr val \<Rightarrow>
               weather_loop rest
                 (if py_eq_int key 9 then AList.update ''temperature'' val weather_map
                  else if py_eq_int key 21 then AList.update ''condition'' val weather_map
                  else if py_eq_int key 27 then AList.update ''humidity'' val weather_map
                  else if py_eq_int key 23 then AList.update ''wind_speed'' val weather_map
                  else if py_eq_int key 25 then AList.update ''pressure'' val weather_map
                  else if py_eq_int key 35 then AList.update ''precipitation'' val weather_map
                  else weather_map)))"

text \<open>\<^verbatim>\<open>Weather(**weather_map)\<close>: a field that is not a key keeps its default \<^verbatim>\<open>None\<close>.\<close>

definition Weather_init :: "(string \<times> json) list \<Rightarrow> error + Weather" where
  "Weather_init weather_map =
     ebind (validate_optional validate_str (dict_get weather_map ''temperature'' JNull)) (\<lambda>t.
     ebind (validate_optional validate_str (dict_get weather_map ''condition'' JNull)) (\<lambda>c.
     ebind (validate_optional validate_str (dict_get weather_map ''humidity'' JNull)) (\<lambda>h.
     ebind (validate_optional validate_str (dict_get weather_map ''wind_speed'' JNull)) (\<lambda>w.
     ebind (validate_optional validate_str (dict_get weather_map ''pressure'' JNull)) (\<lambda>p.
     ebind (validate_optional validate_str (dict_get weather_map ''precipitation'' JNull)) (\<lambda>r.
     Inr \<lparr>temperature = t, condition = c, humidity = h, wind_speed = w, pressure = p,
          precipitation = r\<rparr>))))))"

text \<open>\<^verbatim>\<open>BettingDataParser._parse_weather\<close>\<close>

definition parse_weather :: "json \<Rightarrow> error + Weather option" where
  "parse_weather weather_data =
     (if \<not> truthy weather_data then Inr None
      else
        ebind (py_iter weather_data) (\<lambda>items.
        ebind (weather_loop items []) (\<lambda>weather_map.
        if weather_map \<noteq> [] then ebind (Weather_init weather_map) (\<lambda>w. Inr (Some w))
        else Inr None)))"

section \<open>Normalizing one record\<close>

text \<open>\<^verbatim>\<open>match_data.get(k, [None])[0] if match_data.get(k) else None\<close>, the image of a team.\<close>

definition first_image :: "(string \<times> json) list \<Rightarrow> string \<Rightarrow> error + json" where
  "first_image d k =
     (if truthy (dict_get d k JNull) then py_getitem0 (dict_get d k (JArr [JNull]))
      else Inr JNull)"

text \<open>\<^verbatim>\<open>venue_info.get(k) if venue_info else None\<close>\<close>

definition venue_field :: "json \<Rightarrow> string \<Rightarrow> error + json" where
  "venue_field venue_info k = (if truthy venue_info then py_get venue_info k JNull else Inr JNull)"

text \<open>
  \<^verbatim>\<open>WinProbabilities(home_win=..., draw=..., away_win=...) if wp_data else None\<close>.
  The three fields are declared with the aliases \<^verbatim>\<open>P1\<close>, \<^verbatim>\<open>PX\<close>, \<^verbatim>\<open>P2\<close> and the model
  does not enable population by field name, so pydantic ignores the three keyword
  arguments and every field keeps its default \<^verbatim>\<open>None\<close>. The three arguments are still
  evaluated, and each \<^verbatim>\<open>wp_data.get\<close> raises when \<^verbatim>\<open>wp_data\<close> is not a dictionary.
\<close>

definition parse_probabilities :: "json \<Rightarrow> error + WinProbabilities option" where
  "parse_probabilities wp_data =
     (if truthy wp_data then
        ebind (py_get wp_data ''P1'' JNull) (\<lambda>p1.
        ebind (py_get wp_data ''PX'' JNull) (\<lambda>px.
        ebind (py_get wp_data ''P2'' JNull) (\<lambda>p2.
        Inr (Some \<lparr>home_win = None, draw = None, away_win = None\<rparr>))))
      else Inr None)"

text \<open>\<^verbatim>\<open>Match(id=..., ..., event_count=...)\<close>: the raw values still to be validated are
  passed as \<open>json\<close>, the values that the parser has built are passed as they are.\<close>

definition Match_init ::
  "('dt, 'x) pylib_scheme \<Rightarrow> json \<Rightarrow> json \<Rightarrow> json \<Rightarrow> json \<Rightarrow> json \<Rightarrow> 'dt \<Rightarrow> Team \<Rightarrow> Team \<Rightarrow>
   json \<Rightarrow> json \<Rightarrow> WinProbabilities option \<Rightarrow> Markets \<Rightarrow> Weather option \<Rightarrow> bool \<Rightarrow> json \<Rightarrow>
   error + 'dt Match" where
  "Match_init lib id_v name_v sport_v league_v country_v start home away venue_v stage_v
     probs mkts wthr live event_count_v =
     ebind (validate_int lib id_v) (\<lambda>i.
     ebind (validate_str name_v) (\<lambda>n.
     ebind (validate_str sport_v) (\<lambda>s.
     ebind (validate_str league_v) (\<lambda>l.
     ebind (validate_str country_v) (\<lambda>c.
     ebind (validate_optional validate_str venue_v) (\<lambda>v.
     ebind (validate_optional validate_str stage_v) (\<lambda>st.
     ebind (validate_int lib event_count_v) (\<lambda>ec.
     Inr \<lparr>id_m = i, name = n, sport = s, league = l, country = c, start_time = start,
          home_team = home, away_team = away, venue = v, stage = st,
          probabilities = probs, markets = mkts, weather = wthr, is_live = live,
          event_count = ec\<rparr>))))))))"

text \<open>\<^verbatim>\<open>BettingDataParser._parse_single_match\<close>. \<open>now\<close> is what \<^verbatim>\<open>datetime.now()\<close> returns
  when this record is normalized. Every \<^verbatim>\<open>match_data.get\<close> raises when the record is
  not a dictionary, so the first one decides.\<close>

definition parse_single_match :: "('dt, 'x) pylib_scheme \<Rightarrow> 'dt \<Rightarrow> json \<Rightarrow> error + 'dt Match" where
  "parse_single_match lib now match_data =
     (case match_data of
        JObj d \<Rightarrow>
          (let match_id = dict_get d ''I'' JNull;
               name_v = dict_get d ''L'' (JStr []);
               sport_v = dict_get d ''SE'' (JStr []);
               league_v = dict_get d ''LE'' (JStr []);
               country_v = dict_get d ''CN'' (JStr []);
               start_timestamp = dict_get d ''S'' (JInt 0)
           in
           ebind (if truthy start_timestamp then fromtimestamp lib start_timestamp
                  else Inr now) (\<lambda>start.
           ebind (first_image d ''O1IMG'') (\<lambda>img1.
           ebind (Team_init lib (dict_get d ''O1'' (JStr [])) (dict_get d ''O1I'' (JInt 0))
                    img1 (dict_get d ''O1C'' JNull)) (\<lambda>home.
           ebind (first_image d ''O2IMG'') (\<lambda>img2.
           ebind (Team_init lib (dict_get d ''O2'' (JStr [])) (dict_get d ''O2I'' (JInt 0))
                    img2 (dict_get d ''O2C'' JNull)) (\<lambda>away.
           ebind (venue_field (dict_get d ''MIO'' (JObj [])) ''Loc'') (\<lambda>venue_v.
           ebind (venue_field (dict_get d ''MIO'' (JObj [])) ''TSt'') (\<lambda>stage_v.
           ebind (parse_probabilities (dict_get d ''WP'' (JObj []))) (\<lambda>probs.
           ebind (parse_markets lib (dict_get d ''E'' (JArr [])) (dict_get d ''AE'' (JArr [])))
             (\<lambda>mkts.
           ebind (parse_weather (dict_get d ''MIS'' (JArr []))) (\<lambda>wthr.
           Match_init lib match_id name_v sport_v league_v country_v start home away
             venue_v stage_v probs mkts wthr
             (py_eq_int (dict_get d ''SS'' (JInt 0)) 1)
             (dict_get d ''EC'' (JInt 0)))))))))))))
      | _ \<Rightarrow> Inl AttributeError)"

section \<open>Normalizing a response\<close>

text \<open>
  The loop of \<^verbatim>\<open>_parse_matches\<close>. The state is the list of matches and the lines
  printed so far, a line being the identifier shown and the exception. \<open>clock i\<close> is
  the reading of \<^verbatim>\<open>datetime.now()\<close> while record number \<open>i\<close> is normalized. The
  handler of the \<^verbatim>\<open>try\<close> calls \<^verbatim>\<open>match_data.get('I', 'unknown')\<close> itself, outside any
  \<^verbatim>\<open>try\<close>: an exception there leaves the loop and the method.
\<close>

fun matches_loop ::
  "('dt, 'x) pylib_scheme \<Rightarrow> (nat \<Rightarrow> 'dt) \<Rightarrow> nat \<Rightarrow> json list \<Rightarrow> 'dt Match list \<Rightarrow>
   (json \<times> error) list \<Rightarrow> error + ('dt Match list \<times> (json \<times> error) list)" where
  "matches_loop lib clock i [] matches printed = Inr (matches, printed)"
| "matches_loop lib clock i (match_data # rest) matches printed =
     (case parse_single_match lib (clock i) match_data of
        Inr parsed_match \<Rightarrow>
          matches_loop lib clock (Suc i) rest (matches @ [parsed_match]) printed
      | Inl e \<Rightarrow>
          (case py_get match_data ''I'' (JStr ''unknown'') of
             Inl e' \<Rightarrow> Inl e'
           | Inr ident \<Rightarrow>
               matches_loop lib clock (Suc i) rest matches (printed @ [(ident, e)])))"

text \<open>\<^verbatim>\<open>BettingDataParser._parse_matches\<close>, on the dictionary \<^verbatim>\<open>self.raw_data\<close>.\<close>

definition parse_matches ::
  "('dt, 'x) pylib_scheme \<Rightarrow> (nat \<Rightarrow> 'dt) \<Rightarrow> (string \<times> json) list \<Rightarrow>
   error + ('dt Match list \<times> (json \<times> error) list)" where
  "parse_matches lib clock raw_data =
     ebind (py_iter (dict_get raw_data ''Value'' (JArr []))) (\<lambda>records.
     matches_loop lib clock 0 records [] [])"

text \<open>\<^verbatim>\<open>BettingDataParser.__init__\<close>: the parser object holds the matches; the value
  returned here is \<^verbatim>\<open>self.matches\<close>, or the exception that leaves the constructor.\<close>

definition BettingDataParser_init ::
  "('dt, 'x) pylib_scheme \<Rightarrow> (nat \<Rightarrow> 'dt) \<Rightarrow> (string \<times> json) list \<Rightarrow> error + 'dt Match list" where
  "BettingDataParser_init lib clock api_response =
     ebind (parse_matches lib clock api_response) (\<lambda>r. Inr (fst r))"

section \<open>Views of the parsed matches\<close>

text \<open>\<^verbatim>\<open>BettingDataParser.get_matches_with_good_odds\<close>\<close>

definition get_matches_with_good_odds :: "'dt Match list \<Rightarrow> real \<Rightarrow> 'dt Match list" where
  "get_matches_with_good_odds matches min_odds =
     filter (\<lambda>m. list_ex (\<lambda>market. odds market \<ge> min_odds) (match_result (markets m))) matches"

text \<open>The counting loop of \<^verbatim>\<open>get_popular_leagues\<close>: \<^verbatim>\<open>league_counts\<close> is a dictionary in
  insertion order.\<close>

fun count_leagues :: "'dt Match list \<Rightarrow> (string \<times> int) list \<Rightarrow> (string \<times> int) list" where
  "count_leagues [] league_counts = league_counts"
| "count_leagues (m # rest) league_counts =
     count_leagues rest
       (AList.update (league m)
          ((case map_of league_counts (league m) of Some c \<Rightarrow> c | None \<Rightarrow> 0) + 1)
          league_counts)"

text \<open>\<^verbatim>\<open>sorted(items, key=lambda x: x[1], reverse=True)\<close>: Python's sort is stable, and
  with \<^verbatim>\<open>reverse=True\<close> items with equal keys keep their original order; it is the
  stable sort by ascending negated key.\<close>

definition sorted_by_count_reverse :: "(string \<times> int) list \<Rightarrow> (string \<times> int) list" where
  "sorted_by_count_reverse items = sort_key (\<lambda>x. - snd x) items"

text \<open>\<^verbatim>\<open>BettingDataParser.get_popular_leagues\<close>; an entry
  \<^verbatim>\<open>{"league": league, "count": count}\<close> of the result is the pair \<open>(league, count)\<close>.\<close>

definition get_popular_leagues :: "'dt Match list \<Rightarrow> (string \<times> int) list" where
  "get_popular_leagues matches = sorted_by_count_reverse (count_leagues matches [])"

section \<open>Notions used to state the properties\<close>

text \<open>The items of a raw value that a loop of the parser visits (none when the value
  is not iterable).\<close>

definition items_of :: "json \<Rightarrow> json list" where
  "items_of v = (case py_iter v of Inr xs \<Rightarrow> xs | Inl e \<Rightarrow> [])"

text \<open>The \<^verbatim>\<open>Market\<close> objects that \<^verbatim>\<open>_parse_markets\<close> constructs, in the order of
  construction: from the primary array, from one additional group, from the array of
  additional groups.\<close>

definition built_main :: "('dt, 'x) pylib_scheme \<Rightarrow> json \<Rightarrow> Market list" where
  "built_main lib main_markets =
     List.map_filter (\<lambda>market_data.
         case main_market lib market_data of Inr market \<Rightarrow> Some market | Inl e \<Rightarrow> None)
       (items_of main_markets)"

definition built_group :: "('dt, 'x) pylib_scheme \<Rightarrow> json \<Rightarrow> Market list" where
  "built_group lib market_group =
     List.map_filter (\<lambda>market_data.
         case additional_market lib market_group market_data of
           Inr market \<Rightarrow> Some market | Inl e \<Rightarrow> None)
       (case py_get market_group ''ME'' (JArr []) of Inr v \<Rightarrow> items_of v | Inl e \<Rightarrow> [])"

definition built_additional :: "('dt, 'x) pylib_scheme \<Rightarrow> json \<Rightarrow> Market list" where
  "built_additional lib additional_markets =
     concat (map (built_group lib) (items_of additional_markets))"

text \<open>The market's type code has category \<open>c\<close> in the table of section 4.2.\<close>

definition recognized :: "category \<Rightarrow> Market \<Rightarrow> bool" where
  "recognized c market = (classify_spec (type_m market) = Some c)"

text \<open>The entry of the misc-info list carries one of the six keys that
  \<^verbatim>\<open>_parse_weather\<close> maps to a field.\<close>

definition weather_key_mapped :: "json \<Rightarrow> bool" where
  "weather_key_mapped item =
     (case py_get item ''K'' JNull of
        Inr key \<Rightarrow> list_ex (py_eq_int key) [9, 21, 23, 25, 27, 35]
      | Inl e \<Rightarrow> False)"

text \<open>The elements of a list in the order of their first occurrence.\<close>

primrec first_seen :: "'a list \<Rightarrow> 'a list" where
  "first_seen [] = []"
| "first_seen (x # xs) = x # filter (\<lambda>y. y \<noteq> x) (first_seen xs)"

text \<open>The matches that survive a batch: the records that normalize, in the order of
  the raw array, record number \<open>i\<close> first.\<close>

fun survivors ::
  "('dt, 'x) pylib_scheme \<Rightarrow> (nat \<Rightarrow> 'dt) \<Rightarrow> nat \<Rightarrow> json list \<Rightarrow> 'dt Match list" where
  "survivors lib clock i [] = []"
| "survivors lib clock i (match_data # rest) =
     (case parse_single_match lib (clock i) match_data of
        Inr parsed_match \<Rightarrow> parsed_match # survivors lib clock (Suc i) rest
      | Inl e \<Rightarrow> survivors lib clock (Suc i) rest)"

section \<open>Concrete inputs\<close>

text \<open>
  An instance of the library parameters on which the model can be run: a
  \<^verbatim>\<open>datetime\<close> is the POSIX time of its instant in seconds, \<^verbatim>\<open>fromtimestamp\<close> accepts
  the numbers, and no string is read as a number. None of the records evaluated
  below carries a string where a number is expected.
\<close>

definition posix_lib :: "real pylib" where
  "posix_lib = \<lparr>
     fromtimestamp = (\<lambda>v. case v of
         JInt i \<Rightarrow> Inr (of_int i)
       | JFloat r \<Rightarrow> Inr r
       | JBool b \<Rightarrow> Inr (if b then 1 else 0)
       | _ \<Rightarrow> Inl TypeError),
     str_as_int = (\<lambda>s. None),
     str_as_float = (\<lambda>s. None)\<rparr>"

text \<open>The record of the end-to-end scenario of section 8 of the specification, and
  the match it normalizes to.\<close>

definition sample_fields :: "(string \<times> json) list" where
  "sample_fields =
     [(''I'', JInt 1), (''L'', JStr ''A vs B''), (''SE'', JStr ''Football''),
      (''LE'', JStr ''Premier''), (''CN'', JStr ''UK''), (''S'', JInt 1700000000),
      (''O1'', JStr ''A''), (''O1I'', JInt 10), (''O2'', JStr ''B''), (''O2I'', JInt 20),
      (''E'', JArr [JObj [(''G'', JInt 1), (''T'', JInt 1), (''C'', JFloat 1.8)],
                   JObj [(''G'', JInt 1), (''T'', JInt 2), (''C'', JFloat 3.2)],
                   JObj [(''G'', JInt 1), (''T'', JInt 3), (''C'', JFloat 4.5)]]),
      (''SS'', JInt 1)]"

definition sample_match :: "real Match" where
  "sample_match = \<lparr>id_m = 1, name = ''A vs B'', sport = ''Football'', league = ''Premier'',
     country = ''UK'', start_time = 1700000000,
     home_team = \<lparr>name_t = ''A'', id_t = 10, image = None, country_t = None\<rparr>,
     away_team = \<lparr>name_t = ''B'', id_t = 20, image = None, country_t = None\<rparr>,
     venue = None, stage = None, probabilities = None,
     markets = \<lparr>match_result =
         [\<lparr>type_m = 1, outcome = 1, odds = 1.8, parameter = None, is_main = False\<rparr>,
          \<lparr>type_m = 1, outcome = 2, odds = 3.2, parameter = None, is_main = False\<rparr>,
          \<lparr>type_m = 1, outcome = 3, odds = 4.5, parameter = None, is_main = False\<rparr>],
        over_under = [], handicap = [], both_teams_score = [], correct_score = []\<rparr>,
     weather = None, is_live = True, event_count = 0\<rparr>"

text \<open>A record that carries only an identifier and the given extra fields, and the
  match a record normalizes to when every other field takes its default.\<close>

definition bare_fields :: "(string \<times> json) list \<Rightarrow> (string \<times> json) list" where
  "bare_fields extra = (''I'', JInt 7) # extra"

definition bare_match :: "real \<Rightarrow> real Match" where
  "bare_match start = \<lparr>id_m = 7, name = [], sport = [], league = [], country = [],
     start_time = start,
     home_team = \<lparr>name_t = [], id_t = 0, image = None, country_t = None\<rparr>,
     away_team = \<lparr>name_t = [], id_t = 0, image = None, country_t = None\<rparr>,
     venue = None, stage = None, probabilities = None, markets = Markets_init,
     weather = None, is_live = False, event_count = 0\<rparr>"

section \<open>Supporting lemmas\<close>

subsection \<open>The classifier and the buckets\<close>

lemma bucket_categorize_market:
  "bucket c (categorize_market market mkts) =
     bucket c mkts @ (if classify_spec (type_m market) = Some c then [market] else [])"
  by (cases c) (simp_all add: categorize_market_def classify_spec_def Let_def)

subsection \<open>Exceptions as values\<close>

lemma ebind_Inl [simp]: "ebind (Inl e) f = Inl e"
  by (simp add: ebind_def)

lemma ebind_Inr [simp]: "ebind (Inr a) f = f a"
  by (simp add: ebind_def)

lemma ebind_eq_Inr_iff: "ebind x f = Inr y \<longleftrightarrow> (\<exists>a. x = Inr a \<and> f a = Inr y)"
  by (cases x) simp_all

lemma dict_get_absent: "map_of d k = None \<Longrightarrow> dict_get d k dflt = dflt"
  by (simp add: dict_get_def)

lemma dict_get_delete:
  "dict_get (AList.delete k d) k' dflt = (if k' = k then dflt else dict_get d k' dflt)"
  by (simp add: dict_get_def delete_conv')

lemma first_image_delete: "k' \<noteq> k \<Longrightarrow> first_image (AList.delete k d) k' = first_image d k'"
  by (simp add: first_image_def dict_get_delete)

lemma validate_int_0: "validate_int lib (JInt 0) = Inr 0"
  by (simp add: validate_int_def)

lemma validate_int_None: "validate_int lib JNull = Inl ValidationError"
  by (simp add: validate_int_def)

lemma validate_str_empty: "validate_str (JStr []) = Inr []"
  by (simp add: validate_str_def)

lemma py_eq_int_1: "py_eq_int v 1 \<longleftrightarrow> v = JInt 1 \<or> v = JFloat 1 \<or> v = JBool True"
  by (cases v) (auto simp: py_eq_int_def)

subsection \<open>What a successful normalization has computed\<close>

lemma Match_init_Inr:
  assumes "Match_init lib id_v name_v sport_v league_v country_v start home away venue_v stage_v
     probs mkts wthr live event_count_v = Inr m"
  shows "validate_int lib id_v = Inr (id_m m)"
    and "validate_str name_v = Inr (name m)"
    and "validate_str sport_v = Inr (sport m)"
    and "validate_str league_v = Inr (league m)"
    and "validate_str country_v = Inr (country m)"
    and "validate_optional validate_str venue_v = Inr (venue m)"
    and "validate_optional validate_str stage_v = Inr (stage m)"
    and "validate_int lib event_count_v = Inr (event_count m)"
    and "start_time m = start" and "home_team m = home" and "away_team m = away"
    and "probabilities m = probs" and "markets m = mkts" and "weather m = wthr"
    and "is_live m = live"
  using assms unfolding Match_init_def by (auto simp: ebind_eq_Inr_iff)

lemma Team_init_Inr:
  assumes "Team_init lib name_v id_v image_v country_v = Inr t"
  shows "validate_str name_v = Inr (name_t t)" and "validate_int lib id_v = Inr (id_t t)"
  using assms unfolding Team_init_def by (auto simp: ebind_eq_Inr_iff)

lemma parse_single_match_Inr:
  assumes "parse_single_match lib now (JObj d) = Inr m"
  shows "(if truthy (dict_get d ''S'' (JInt 0)) then fromtimestamp lib (dict_get d ''S'' (JInt 0))
          else Inr now) = Inr (start_time m)"
    and "ebind (first_image d ''O1IMG'') (\<lambda>img. Team_init lib (dict_get d ''O1'' (JStr []))
           (dict_get d ''O1I'' (JInt 0)) img (dict_get d ''O1C'' JNull)) = Inr (home_team m)"
    and "ebind (first_image d ''O2IMG'') (\<lambda>img. Team_init lib (dict_get d ''O2'' (JStr []))
           (dict_get d ''O2I'' (JInt 0)) img (dict_get d ''O2C'' JNull)) = Inr (away_team m)"
    and "parse_markets lib (dict_get d ''E'' (JArr [])) (dict_get d ''AE'' (JArr []))
           = Inr (markets m)"
    and "parse_weather (dict_get d ''MIS'' (JArr [])) = Inr (weather m)"
    and "validate_int lib (dict_get d ''I'' JNull) = Inr (id_m m)"
    and "validate_str (dict_get d ''L'' (JStr [])) = Inr (name m)"
    and "validate_str (dict_get d ''SE'' (JStr [])) = Inr (sport m)"
    and "validate_str (dict_get d ''LE'' (JStr [])) = Inr (league m)"
    and "validate_str (dict_get d ''CN'' (JStr [])) = Inr (country m)"
    and "validate_int lib (dict_get d ''EC'' (JInt 0)) = Inr (event_count m)"
    and "is_live m = py_eq_int (dict_get d ''SS'' (JInt 0)) 1"
  using assms unfolding parse_single_match_def Let_def
  by (auto simp: ebind_eq_Inr_iff dest: Match_init_Inr)

lemma parse_single_match_teams:
  assumes "parse_single_match lib now (JObj d) = Inr m"
  shows "validate_str (dict_get d ''O1'' (JStr [])) = Inr (name_t (home_team m))"
    and "validate_int lib (dict_get d ''O1I'' (JInt 0)) = Inr (id_t (home_team m))"
    and "validate_str (dict_get d ''O2'' (JStr [])) = Inr (name_t (away_team m))"
    and "validate_int lib (dict_get d ''O2I'' (JInt 0)) = Inr (id_t (away_team m))"
  using parse_single_match_Inr(2,3) [OF assms]
  by (auto simp: ebind_eq_Inr_iff dest: Team_init_Inr)

subsection \<open>Evaluation on the concrete inputs\<close>

lemmas eval_defs =
  parse_single_match_def Let_def dict_get_def truthy_def posix_lib_def first_image_def
  Team_init_def validate_str_def validate_int_def validate_float_def validate_optional_def
  venue_field_def parse_probabilities_def parse_markets_def py_iter_def main_market_def
  additional_market_def py_get_def Market_init_def py_eq_int_def categorize_market_def
  Markets_init_def parse_weather_def Match_init_def py_getitem0_def Weather_init_def

lemma sample_parse: "parse_single_match posix_lib now (JObj sample_fields) = Inr sample_match"
  by (simp add: sample_fields_def sample_match_def eval_defs)

lemma bare_parse: "parse_single_match posix_lib now (JObj (bare_fields [])) = Inr (bare_match now)"
  by (simp add: bare_fields_def bare_match_def eval_defs)

lemma zero_timestamp_parse:
  "parse_single_match posix_lib now (JObj (bare_fields [(''S'', JInt 0)])) = Inr (bare_match now)"
  by (simp add: bare_fields_def bare_match_def eval_defs)

lemma float_timestamp_parse:
  "parse_single_match posix_lib now (JObj (bare_fields [(''S'', JFloat 1.5)]))
     = Inr (bare_match 1.5)"
  by (simp add: bare_fields_def bare_match_def eval_defs)

lemma weather_parse:
  "parse_single_match posix_lib now
     (JObj (bare_fields [(''MIS'', JArr [JObj [(''K'', JInt 9)]])]))
   = Inr ((bare_match now)\<lparr>weather :=
       Some \<lparr>temperature = None, condition = None, humidity = None, wind_speed = None,
             pressure = None, precipitation = None\<rparr>\<rparr>)"
  by (simp add: bare_fields_def bare_match_def eval_defs)

lemma markets_parse:
  "parse_single_match posix_lib now
     (JObj (bare_fields
        [(''E'', JArr [JObj [(''G'', JInt 1), (''T'', JInt 1), (''C'', JFloat 2), (''CE'', JInt 1)]]),
         (''AE'', JArr [JObj [(''G'', JInt 15),
            (''ME'', JArr [JObj [(''T'', JInt 9), (''C'', JFloat 1.9), (''P'', JFloat 2.5),
                                (''CE'', JInt 1)]])]])]))
   = Inr ((bare_match now)\<lparr>markets :=
       \<lparr>match_result =
          [\<lparr>type_m = 1, outcome = 1, odds = 2, parameter = None, is_main = True\<rparr>],
        over_under =
          [\<lparr>type_m = 15, outcome = 9, odds = 1.9, parameter = Some 2.5, is_main = False\<rparr>],
        handicap = [], both_teams_score = [], correct_score = []\<rparr>\<rparr>)"
  by (simp add: bare_fields_def bare_match_def eval_defs)

lemma parse_null: "parse_single_match lib now JNull = Inl AttributeError"
  by (simp add: parse_single_match_def)

subsection \<open>The buckets after parsing the markets\<close>

lemma main_loop_buckets:
  "main_loop lib mains mkts = Inr mkts' \<Longrightarrow>
   bucket c mkts' = bucket c mkts @ filter (recognized c)
     (List.map_filter (\<lambda>market_data.
         case main_market lib market_data of Inr market \<Rightarrow> Some market | Inl e \<Rightarrow> None) mains)"
proof (induction mains arbitrary: mkts)
  case Nil
  then show ?case by simp
next
  case (Cons market_data rest)
  then obtain market where mk: "main_market lib market_data = Inr market"
    and rest: "main_loop lib rest (categorize_market market mkts) = Inr mkts'"
    by (auto split: sum.splits)
  from Cons.IH [OF rest] mk show ?case
    by (simp add: bucket_categorize_market recognized_def)
qed

lemma group_loop_buckets:
  "group_loop lib g entries mkts = Inr mkts' \<Longrightarrow>
   bucket c mkts' = bucket c mkts @ filter (recognized c)
     (List.map_filter (\<lambda>market_data.
         case additional_market lib g market_data of Inr market \<Rightarrow> Some market | Inl e \<Rightarrow> None)
       entries)"
proof (induction entries arbitrary: mkts)
  case Nil
  then show ?case by simp
next
  case (Cons market_data rest)
  then obtain market where mk: "additional_market lib g market_data = Inr market"
    and rest: "group_loop lib g rest (categorize_market market mkts) = Inr mkts'"
    by (auto split: sum.splits)
  from Cons.IH [OF rest] mk show ?case
    by (simp add: bucket_categorize_market recognized_def)
qed

lemma additional_loop_buckets:
  "additional_loop lib groups mkts = Inr mkts' \<Longrightarrow>
   bucket c mkts' = bucket c mkts @ filter (recognized c) (concat (map (built_group lib) groups))"
proof (induction groups arbitrary: mkts)
  case Nil
  then show ?case by simp
next
  case (Cons g rest)
  then obtain entries mid where
    ent: "ebind (py_get g ''ME'' (JArr [])) py_iter = Inr entries"
    and grp: "group_loop lib g entries mkts = Inr mid"
    and rest: "additional_loop lib rest mid = Inr mkts'"
    by (auto split: sum.splits)
  from ent have "(case py_get g ''ME'' (JArr []) of Inr v \<Rightarrow> items_of v | Inl e \<Rightarrow> []) = entries"
    by (auto simp: ebind_eq_Inr_iff items_of_def)
  with group_loop_buckets [OF grp, of c] Cons.IH [OF rest] show ?case
    by (simp add: built_group_def)
qed

lemma parse_markets_buckets:
  assumes "parse_markets lib main_markets additional_markets = Inr mkts"
  shows "bucket c mkts =
     filter (recognized c) (built_main lib main_markets @ built_additional lib additional_markets)"
proof -
  from assms obtain mains mid groups where
    it1: "py_iter main_markets = Inr mains"
    and ml: "main_loop lib mains Markets_init = Inr mid"
    and it2: "py_iter additional_markets = Inr groups"
    and al: "additional_loop lib groups mid = Inr mkts"
    by (auto simp: parse_markets_def ebind_eq_Inr_iff)
  have "bucket c Markets_init = []"
    by (cases c) (simp_all add: Markets_init_def)
  with main_loop_buckets [OF ml, of c] additional_loop_buckets [OF al, of c] it1 it2
  show ?thesis
    by (simp add: built_main_def built_additional_def items_of_def)
qed

lemma match_buckets:
  assumes "parse_single_match lib now (JObj d) = Inr m"
  shows "bucket c (markets m) =
     filter (recognized c)
       (built_main lib (dict_get d ''E'' (JArr [])) @ built_additional lib (dict_get d ''AE'' (JArr [])))"
  using parse_markets_buckets [OF parse_single_match_Inr(4) [OF assms]] .

lemma additional_market_not_main: "additional_market lib g e = Inr mk \<Longrightarrow> \<not> is_main mk"
  by (auto simp: additional_market_def Market_init_def ebind_eq_Inr_iff)

lemma main_market_is_main:
  "main_market lib e = Inr mk \<Longrightarrow>
     \<exists>f. e = JObj f \<and> is_main mk = py_eq_int (dict_get f ''CE'' JNull) 1"
  by (cases e) (auto simp: main_market_def Market_init_def ebind_eq_Inr_iff py_get_def)

lemma in_built_main:
  "mk \<in> set (built_main lib E) \<longleftrightarrow> (\<exists>e \<in> set (items_of E). main_market lib e = Inr mk)"
  by (force simp: built_main_def List.map_filter_def split: sum.splits)

lemma in_built_additional:
  "mk \<in> set (built_additional lib AE) \<longleftrightarrow>
     (\<exists>g \<in> set (items_of AE). mk \<in> set (built_group lib g))"
  by (auto simp: built_additional_def)

lemma in_built_group:
  "mk \<in> set (built_group lib g) \<Longrightarrow> \<exists>e. additional_market lib g e = Inr mk"
  by (force simp: built_group_def List.map_filter_def split: sum.splits)

lemma recognized_codes:
  "recognized c mk \<Longrightarrow> type_m mk \<in> {1, 2, 8, 15, 17, 19, 62}"
  by (auto simp: recognized_def classify_spec_def split: if_splits)

lemma length_filter_recognized:
  "length (filter (recognized MatchResult) xs) + length (filter (recognized OverUnder) xs)
   + length (filter (recognized Handicap) xs) + length (filter (recognized BothTeamsScore) xs)
   + length (filter (recognized CorrectScore) xs)
   = length (filter (\<lambda>mk. type_m mk \<in> {1, 2, 8, 15, 17, 19, 62}) xs)"
  by (induction xs) (auto simp: recognized_def classify_spec_def)

subsection \<open>The weather map\<close>

lemma weather_loop_nonempty:
  "weather_loop items wm = Inr wm' \<Longrightarrow>
     wm' \<noteq> [] \<longleftrightarrow> wm \<noteq> [] \<or> (\<exists>item \<in> set items. weather_key_mapped item)"
proof (induction items arbitrary: wm)
  case Nil
  then show ?case by simp
next
  case (Cons item rest)
  then obtain key val where k: "py_get item ''K'' JNull = Inr key"
    and v: "py_get item ''V'' JNull = Inr val"
    by (auto split: sum.splits)
  with Cons.prems Cons.IH show ?case
    by (auto simp: weather_key_mapped_def split: if_splits)
qed

lemma parse_weather_None_iff:
  assumes "parse_weather v = Inr w"
  shows "w = None \<longleftrightarrow> (\<forall>item \<in> set (items_of v). \<not> weather_key_mapped item)"
proof (cases "truthy v")
  case False
  then have "items_of v = []"
    by (cases v) (auto simp: truthy_def items_of_def py_iter_def)
  with False assms show ?thesis by (simp add: parse_weather_def)
next
  case True
  with assms obtain items wm where it: "py_iter v = Inr items"
    and wl: "weather_loop items [] = Inr wm"
    and w: "(if wm \<noteq> [] then ebind (Weather_init wm) (\<lambda>w. Inr (Some w)) else Inr None) = Inr w"
    by (auto simp: parse_weather_def ebind_eq_Inr_iff)
  from w have "w = None \<longleftrightarrow> wm = []"
    by (auto simp: ebind_eq_Inr_iff split: if_splits)
  with weather_loop_nonempty [OF wl] it show ?thesis
    by (auto simp: items_of_def)
qed

subsection \<open>Removing a passthrough key from a record that normalizes\<close>

lemma delete_L:
  assumes "parse_single_match lib now (JObj d) = Inr m"
  shows "parse_single_match lib now (JObj (AList.delete ''L'' d)) = Inr (m\<lparr>name := []\<rparr>)"
  using assms unfolding parse_single_match_def Let_def
  by (auto simp: ebind_eq_Inr_iff dict_get_delete first_image_delete Match_init_def
      validate_str_empty)

lemma delete_SE:
  assumes "parse_single_match lib now (JObj d) = Inr m"
  shows "parse_single_match lib now (JObj (AList.delete ''SE'' d)) = Inr (m\<lparr>sport := []\<rparr>)"
  using assms unfolding parse_single_match_def Let_def
  by (auto simp: ebind_eq_Inr_iff dict_get_delete first_image_delete Match_init_def
      validate_str_empty)

lemma delete_LE:
  assumes "parse_single_match lib now (JObj d) = Inr m"
  shows "parse_single_match lib now (JObj (AList.delete ''LE'' d)) = Inr (m\<lparr>league := []\<rparr>)"
  using assms unfolding parse_single_match_def Let_def
  by (auto simp: ebind_eq_Inr_iff dict_get_delete first_image_delete Match_init_def
      validate_str_empty)

lemma delete_CN:
  assumes "parse_single_match lib now (JObj d) = Inr m"
  shows "parse_single_match lib now (JObj (AList.delete ''CN'' d)) = Inr (m\<lparr>country := []\<rparr>)"
  using assms unfolding parse_single_match_def Let_def
  by (auto simp: ebind_eq_Inr_iff dict_get_delete first_image_delete Match_init_def
      validate_str_empty)

lemma delete_EC:
  assumes "parse_single_match lib now (JObj d) = Inr m"
  shows "parse_single_match lib now (JObj (AList.delete ''EC'' d)) = Inr (m\<lparr>event_count := 0\<rparr>)"
  using assms unfolding parse_single_match_def Let_def
  by (auto simp: ebind_eq_Inr_iff dict_get_delete first_image_delete Match_init_def
      validate_int_0)

lemma delete_O1:
  assumes "parse_single_match lib now (JObj d) = Inr m"
  shows "parse_single_match lib now (JObj (AList.delete ''O1'' d))
     = Inr (m\<lparr>home_team := (home_team m)\<lparr>name_t := []\<rparr>\<rparr>)"
  using assms unfolding parse_single_match_def Let_def
  by (auto simp: ebind_eq_Inr_iff dict_get_delete first_image_delete Match_init_def
      Team_init_def validate_str_empty)

lemma delete_O1I:
  assumes "parse_single_match lib now (JObj d) = Inr m"
  shows "parse_single_match lib now (JObj (AList.delete ''O1I'' d))
     = Inr (m\<lparr>home_team := (home_team m)\<lparr>id_t := 0\<rparr>\<rparr>)"
  using assms unfolding parse_single_match_def Let_def
  by (auto simp: ebind_eq_Inr_iff dict_get_delete first_image_delete Match_init_def
      Team_init_def validate_int_0)

lemma delete_O2:
  assumes "parse_single_match lib now (JObj d) = Inr m"
  shows "parse_single_match lib now (JObj (AList.delete ''O2'' d))
     = Inr (m\<lparr>away_team := (away_team m)\<lparr>name_t := []\<rparr>\<rparr>)"
  using assms unfolding parse_single_match_def Let_def
  by (auto simp: ebind_eq_Inr_iff dict_get_delete first_image_delete Match_init_def
      Team_init_def validate_str_empty)

lemma delete_O2I:
  assumes "parse_single_match lib now (JObj d) = Inr m"
  shows "parse_single_match lib now (JObj (AList.delete ''O2I'' d))
     = Inr (m\<lparr>away_team := (away_team m)\<lparr>id_t := 0\<rparr>\<rparr>)"
  using assms unfolding parse_single_match_def Let_def
  by (auto simp: ebind_eq_Inr_iff dict_get_delete first_image_delete Match_init_def
      Team_init_def validate_int_0)

lemma absent_defaults:
  assumes "parse_single_match lib now (JObj d) = Inr m"
  shows "map_of d ''L'' = None \<longrightarrow> name m = []"
    and "map_of d ''SE'' = None \<longrightarrow> sport m = []"
    and "map_of d ''LE'' = None \<longrightarrow> league m = []"
    and "map_of d ''CN'' = None \<longrightarrow> country m = []"
    and "map_of d ''EC'' = None \<longrightarrow> event_count m = 0"
    and "map_of d ''O1'' = None \<longrightarrow> name_t (home_team m) = []"
    and "map_of d ''O1I'' = None \<longrightarrow> id_t (home_team m) = 0"
    and "map_of d ''O2'' = None \<longrightarrow> name_t (away_team m) = []"
    and "map_of d ''O2I'' = None \<longrightarrow> id_t (away_team m) = 0"
  using parse_single_match_Inr(7-11) [OF assms] parse_single_match_teams [OF assms]
  by (auto simp: dict_get_absent validate_str_empty validate_int_0)

lemma absent_id_fails:
  assumes "map_of d ''I'' = None"
  shows "\<exists>e. parse_single_match lib now (JObj d) = Inl e"
proof (cases "parse_single_match lib now (JObj d)")
  case (Inl e)
  then show ?thesis by blast
next
  case (Inr m)
  from parse_single_match_Inr(6) [OF Inr] assms show ?thesis
    by (simp add: dict_get_absent validate_int_None)
qed

subsection \<open>The batch loop on mappings\<close>

lemma matches_loop_mappings:
  assumes "\<forall>r \<in> set records. \<exists>d. r = JObj d"
  shows "\<exists>printed'. matches_loop lib clock i records matches printed
           = Inr (matches @ survivors lib clock i records, printed')"
  using assms
proof (induction records arbitrary: i matches printed)
  case Nil
  then show ?case by simp
next
  case (Cons r rest)
  then obtain d where r: "r = JObj d" by auto
  from Cons.prems have rest: "\<forall>r \<in> set rest. \<exists>d. r = JObj d" by simp
  show ?case
  proof (cases "parse_single_match lib (clock i) r")
    case (Inr m)
    with Cons.IH [OF rest, of "Suc i" "matches @ [m]" printed] show ?thesis by simp
  next
    case (Inl e)
    with Cons.IH [OF rest, of "Suc i" matches] r show ?thesis
      by (simp add: py_get_def)
  qed
qed

lemma parse_matches_Value:
  "parse_matches lib clock resp =
     ebind (py_iter (case map_of resp ''Value'' of Some v \<Rightarrow> v | None \<Rightarrow> JArr []))
       (\<lambda>records. matches_loop lib clock 0 records [] [])"
  by (simp add: parse_matches_def dict_get_def)

lemma batch_on_mappings:
  assumes "\<forall>r \<in> set records. \<exists>d. r = JObj d"
  shows "BettingDataParser_init lib clock [(''Value'', JArr records)]
           = Inr (survivors lib clock 0 records)"
proof -
  from matches_loop_mappings [OF assms, of lib clock 0 "[]" "[]"]
  obtain printed' where
    "matches_loop lib clock 0 records [] [] = Inr (survivors lib clock 0 records, printed')"
    by auto
  then show ?thesis
    by (simp add: BettingDataParser_init_def parse_matches_def dict_get_def py_iter_def)
qed

subsection \<open>Counting the leagues\<close>

lemma sum_update_count:
  "sum_list (map snd (AList.update k ((case map_of lc k of Some c \<Rightarrow> c | None \<Rightarrow> 0) + 1) lc))
     = sum_list (map snd lc) + (1::int)"
  by (induction lc) auto

lemma sum_count_leagues:
  "sum_list (map snd (count_leagues ms lc)) = sum_list (map snd lc) + int (length ms)"
  by (induction ms arbitrary: lc) (simp_all add: sum_update_count)

lemma keys_count_leagues:
  "map fst (count_leagues ms lc) =
     map fst lc @ filter (\<lambda>l. l \<notin> fst ` set lc) (first_seen (map league ms))"
proof (induction ms arbitrary: lc)
  case Nil
  then show ?case by simp
next
  case (Cons m rest)
  let ?k = "league m"
  let ?lc = "AList.update ?k ((case map_of lc ?k of Some c \<Rightarrow> c | None \<Rightarrow> 0) + 1) lc"
  have keys: "map fst ?lc = (if ?k \<in> fst ` set lc then map fst lc else map fst lc @ [?k])"
    by (simp add: update_keys)
  have dom: "fst ` set ?lc = insert ?k (fst ` set lc)"
    using dom_update [of ?k _ lc] by simp
  show ?case
  proof (cases "?k \<in> fst ` set lc")
    case True
    then have "filter (\<lambda>l. l \<notin> fst ` set lc) (filter (\<lambda>y. y \<noteq> ?k) xs)
               = filter (\<lambda>l. l \<notin> fst ` set lc) xs" for xs :: "string list"
      by (induction xs) auto
    with True keys dom Cons.IH [of ?lc] show ?thesis
      by (simp add: insert_absorb)
  next
    case False
    have "filter (\<lambda>l. l \<notin> insert ?k (fst ` set lc)) xs
               = filter (\<lambda>l. l \<notin> fst ` set lc) (filter (\<lambda>y. y \<noteq> ?k) xs)" for xs :: "string list"
      by (induction xs) auto
    with False keys dom Cons.IH [of ?lc] show ?thesis
      by simp
  qed
qed

lemma distinct_count_leagues:
  "distinct (map fst lc) \<Longrightarrow> distinct (map fst (count_leagues ms lc))"
  by (induction ms arbitrary: lc) (simp_all add: distinct_update)

lemma map_of_count_leagues:
  "map_of (count_leagues ms lc) l =
     (if l \<in> fst ` set lc \<union> league ` set ms
      then Some ((case map_of lc l of Some c \<Rightarrow> c | None \<Rightarrow> 0)
                 + int (count_list (map league ms) l))
      else None)"
proof (induction ms arbitrary: lc)
  case Nil
  then show ?case
    by (auto simp: map_of_eq_None_iff split: option.splits)
next
  case (Cons m rest)
  let ?k = "league m"
  let ?lc = "AList.update ?k ((case map_of lc ?k of Some c \<Rightarrow> c | None \<Rightarrow> 0) + 1) lc"
  have dom: "fst ` set ?lc = insert ?k (fst ` set lc)"
    using dom_update [of ?k _ lc] by simp
  show ?case
    using Cons.IH [of ?lc]
    by (auto simp: dom update_conv' map_of_eq_None_iff split: option.splits)
qed

lemma pairs_of_keys:
  "\<forall>p \<in> set xs. snd p = f (fst p) \<Longrightarrow> xs = map (\<lambda>l. (l, f l)) (map fst xs)"
  by (induction xs) (auto simp: prod_eq_iff)

lemma count_leagues_eq:
  "count_leagues ms [] =
     map (\<lambda>l. (l, int (count_list (map league ms) l))) (first_seen (map league ms))"
proof -
  let ?xs = "count_leagues ms []"
  have d: "distinct (map fst ?xs)"
    by (rule distinct_count_leagues) simp
  have "snd p = int (count_list (map league ms) (fst p))" if "p \<in> set ?xs" for p
  proof -
    from that d have "map_of ?xs (fst p) = Some (snd p)"
      by simp
    then show ?thesis
      by (simp add: map_of_count_leagues split: if_splits)
  qed
  then have "?xs = map (\<lambda>l. (l, int (count_list (map league ms) l))) (map fst ?xs)"
    by (intro pairs_of_keys) blast
  then show ?thesis
    by (simp add: keys_count_leagues)
qed

section \<open>The claims\<close>

text \<open>
  Claim C1. For every market, the classifier appends it to exactly the bucket that the
  table of section 4.2 gives for its type code (1 to match_result, 15 and 62 to
  over_under, 2 and 17 to handicap, 19 to both_teams_score, 8 to correct_score) and
  leaves every other bucket as it was; a market with any other code changes no bucket.
\<close>

theorem categorize_market_table:
  "(\<forall>c. bucket c (categorize_market market mkts) =
         bucket c mkts @ (if classify_spec (type_m market) = Some c then [market] else []))
   \<and> classify_spec 1 = Some MatchResult
   \<and> classify_spec 15 = Some OverUnder \<and> classify_spec 62 = Some OverUnder
   \<and> classify_spec 2 = Some Handicap \<and> classify_spec 17 = Some Handicap
   \<and> classify_spec 19 = Some BothTeamsScore
   \<and> classify_spec 8 = Some CorrectScore
   \<and> (\<forall>code. code \<notin> {1, 2, 8, 15, 17, 19, 62} \<longrightarrow> classify_spec code = None)
   \<and> (type_m market \<notin> {1, 2, 8, 15, 17, 19, 62} \<longrightarrow> categorize_market market mkts = mkts)"
  by (simp add: bucket_categorize_market) (simp add: classify_spec_def categorize_market_def Let_def)

theorem categorize_market_table_witness:
  "bucket OverUnder
     (categorize_market \<lparr>type_m = 62, outcome = 9, odds = 2, parameter = Some 2.5, is_main = False\<rparr>
        Markets_init)
   = [\<lparr>type_m = 62, outcome = 9, odds = 2, parameter = Some 2.5, is_main = False\<rparr>]
   \<and> classify_spec 3 = None
   \<and> categorize_market \<lparr>type_m = 3, outcome = 9, odds = 2, parameter = None, is_main = False\<rparr>
        Markets_init = Markets_init"
  using categorize_market_table
    [of "\<lparr>type_m = 62, outcome = 9, odds = 2, parameter = Some 2.5, is_main = False\<rparr>" Markets_init]
    categorize_market_table
    [of "\<lparr>type_m = 3, outcome = 9, odds = 2, parameter = None, is_main = False\<rparr>" Markets_init]
  by (simp add: Markets_init_def)

text \<open>
  Claim C2. When exactly one record of the raw array fails normalization and every
  other record succeeds, the batch call does not raise and returns the surviving
  matches in raw-array order. The code catches the failure of a record but its handler
  calls \<^verbatim>\<open>match_data.get('I', 'unknown')\<close> on the record: on the response
  \<^verbatim>\<open>{"Value": [r, null]}\<close>, with \<open>r\<close> the scenario record of section 8, the second record
  fails, the handler raises \<^verbatim>\<open>AttributeError\<close>, and the constructor raises instead of
  returning the one surviving match.
\<close>

theorem batch_handler_raises:
  "BettingDataParser_init posix_lib real [(''Value'', JArr [JObj sample_fields, JNull])]
     = Inl AttributeError"
  by (simp add: BettingDataParser_init_def parse_matches_def dict_get_def py_iter_def
      sample_parse parse_null py_get_def)

text \<open>
  Claim C3, as amended. Every string or integer passthrough field other than the match
  identifier (\<^verbatim>\<open>L\<close>, \<^verbatim>\<open>SE\<close>, \<^verbatim>\<open>LE\<close>, \<^verbatim>\<open>CN\<close>, \<^verbatim>\<open>O1\<close>, \<^verbatim>\<open>O2\<close> with default \<^verbatim>\<open>""\<close>;
  \<^verbatim>\<open>O1I\<close>, \<^verbatim>\<open>O2I\<close>, \<^verbatim>\<open>EC\<close> with default \<^verbatim>\<open>0\<close>) decodes to its default when the key is
  absent, and a record that normalizes still normalizes, with that default, when such
  a key is removed. The identifier \<^verbatim>\<open>I\<close> has no default: a record without it never
  normalizes.
\<close>

theorem passthrough_defaults:
  "(map_of d ''I'' = None \<longrightarrow> (\<exists>e. parse_single_match lib now (JObj d) = Inl e))
   \<and> (parse_single_match lib now (JObj d) = Inr m \<longrightarrow>
        (map_of d ''L'' = None \<longrightarrow> name m = [])
      \<and> (map_of d ''SE'' = None \<longrightarrow> sport m = [])
      \<and> (map_of d ''LE'' = None \<longrightarrow> league m = [])
      \<and> (map_of d ''CN'' = None \<longrightarrow> country m = [])
      \<and> (map_of d ''EC'' = None \<longrightarrow> event_count m = 0)
      \<and> (map_of d ''O1'' = None \<longrightarrow> name_t (home_team m) = [])
      \<and> (map_of d ''O1I'' = None \<longrightarrow> id_t (home_team m) = 0)
      \<and> (map_of d ''O2'' = None \<longrightarrow> name_t (away_team m) = [])
      \<and> (map_of d ''O2I'' = None \<longrightarrow> id_t (away_team m) = 0)
      \<and> parse_single_match lib now (JObj (AList.delete ''L'' d)) = Inr (m\<lparr>name := []\<rparr>)
      \<and> parse_single_match lib now (JObj (AList.delete ''SE'' d)) = Inr (m\<lparr>sport := []\<rparr>)
      \<and> parse_single_match lib now (JObj (AList.delete ''LE'' d)) = Inr (m\<lparr>league := []\<rparr>)
      \<and> parse_single_match lib now (JObj (AList.delete ''CN'' d)) = Inr (m\<lparr>country := []\<rparr>)
      \<and> parse_single_match lib now (JObj (AList.delete ''EC'' d))
          = Inr (m\<lparr>event_count := 0\<rparr>)
      \<and> parse_single_match lib now (JObj (AList.delete ''O1'' d))
          = Inr (m\<lparr>home_team := (home_team m)\<lparr>name_t := []\<rparr>\<rparr>)
      \<and> parse_single_match lib now (JObj (AList.delete ''O1I'' d))
          = Inr (m\<lparr>home_team := (home_team m)\<lparr>id_t := 0\<rparr>\<rparr>)
      \<and> parse_single_match lib now (JObj (AList.delete ''O2'' d))
          = Inr (m\<lparr>away_team := (away_team m)\<lparr>name_t := []\<rparr>\<rparr>)
      \<and> parse_single_match lib now (JObj (AList.delete ''O2I'' d))
          = Inr (m\<lparr>away_team := (away_team m)\<lparr>id_t := 0\<rparr>\<rparr>))"
proof (intro conjI impI)
  assume "map_of d ''I'' = None"
  then show "\<exists>e. parse_single_match lib now (JObj d) = Inl e"
    by (rule absent_id_fails)
next
  assume ok: "parse_single_match lib now (JObj d) = Inr m"
  {
    assume "map_of d ''L'' = None"
    with absent_defaults(1) [OF ok] show "name m = []" by simp
  next
    assume "map_of d ''SE'' = None"
    with absent_defaults(2) [OF ok] show "sport m = []" by simp
  next
    assume "map_of d ''LE'' = None"
    with absent_defaults(3) [OF ok] show "league m = []" by simp
  next
    assume "map_of d ''CN'' = None"
    with absent_defaults(4) [OF ok] show "country m = []" by simp
  next
    assume "map_of d ''EC'' = None"
    with absent_defaults(5) [OF ok] show "event_count m = 0" by simp
  next
    assume "map_of d ''O1'' = None"
    with absent_defaults(6) [OF ok] show "name_t (home_team m) = []" by simp
  next
    assume "map_of d ''O1I'' = None"
    with absent_defaults(7) [OF ok] show "id_t (home_team m) = 0" by simp
  next
    assume "map_of d ''O2'' = None"
    with absent_defaults(8) [OF ok] show "name_t (away_team m) = []" by simp
  next
    assume "map_of d ''O2I'' = None"
    with absent_defaults(9) [OF ok] show "id_t (away_team m) = 0" by simp
  }
  show "parse_single_match lib now (JObj (AList.delete ''L'' d)) = Inr (m\<lparr>name := []\<rparr>)"
    by (rule delete_L [OF ok])
  show "parse_single_match lib now (JObj (AList.delete ''SE'' d)) = Inr (m\<lparr>sport := []\<rparr>)"
    by (rule delete_SE [OF ok])
  show "parse_single_match lib now (JObj (AList.delete ''LE'' d)) = Inr (m\<lparr>league := []\<rparr>)"
    by (rule delete_LE [OF ok])
  show "parse_single_match lib now (JObj (AList.delete ''CN'' d)) = Inr (m\<lparr>country := []\<rparr>)"
    by (rule delete_CN [OF ok])
  show "parse_single_match lib now (JObj (AList.delete ''EC'' d)) = Inr (m\<lparr>event_count := 0\<rparr>)"
    by (rule delete_EC [OF ok])
  show "parse_single_match lib now (JObj (AList.delete ''O1'' d))
          = Inr (m\<lparr>home_team := (home_team m)\<lparr>name_t := []\<rparr>\<rparr>)"
    by (rule delete_O1 [OF ok])
  show "parse_single_match lib now (JObj (AList.delete ''O1I'' d))
          = Inr (m\<lparr>home_team := (home_team m)\<lparr>id_t := 0\<rparr>\<rparr>)"
    by (rule delete_O1I [OF ok])
  show "parse_single_match lib now (JObj (AList.delete ''O2'' d))
          = Inr (m\<lparr>away_team := (away_team m)\<lparr>name_t := []\<rparr>\<rparr>)"
    by (rule delete_O2 [OF ok])
  show "parse_single_match lib now (JObj (AList.delete ''O2I'' d))
          = Inr (m\<lparr>away_team := (away_team m)\<lparr>id_t := 0\<rparr>\<rparr>)"
    by (rule delete_O2I [OF ok])
qed

theorem passthrough_defaults_witness:
  "map_of ([] :: (string \<times> json) list) ''I'' = None
   \<and> (\<exists>e. parse_single_match posix_lib 0 (JObj []) = Inl e)
   \<and> parse_single_match posix_lib 0 (JObj (bare_fields [])) = Inr (bare_match 0)
   \<and> map_of (bare_fields []) ''L'' = None \<and> name (bare_match 0) = []
   \<and> map_of (bare_fields []) ''O1I'' = None \<and> id_t (home_team (bare_match 0)) = 0
   \<and> map_of (bare_fields []) ''EC'' = None \<and> event_count (bare_match 0) = 0
   \<and> parse_single_match posix_lib 0 (JObj sample_fields) = Inr sample_match
   \<and> parse_single_match posix_lib 0 (JObj (AList.delete ''L'' sample_fields))
       = Inr (sample_match\<lparr>name := []\<rparr>)
   \<and> parse_single_match posix_lib 0 (JObj (AList.delete ''O2I'' sample_fields))
       = Inr (sample_match\<lparr>away_team := (away_team sample_match)\<lparr>id_t := 0\<rparr>\<rparr>)"
proof -
  have absent: "map_of ([] :: (string \<times> json) list) ''I'' = None"
    by simp
  from passthrough_defaults [of "[]" posix_lib 0] absent
  have a: "\<exists>e. parse_single_match posix_lib 0 (JObj []) = Inl e"
    by blast
  note bare = bare_parse [of 0]
  have keys: "map_of (bare_fields []) ''L'' = None" "map_of (bare_fields []) ''O1I'' = None"
    "map_of (bare_fields []) ''EC'' = None"
    by (simp_all add: bare_fields_def)
  from passthrough_defaults [of "bare_fields []" posix_lib 0 "bare_match 0"] bare keys
  have b: "name (bare_match 0) = []" "id_t (home_team (bare_match 0)) = 0"
    "event_count (bare_match 0) = 0"
    by blast+
  note sample = sample_parse [of 0]
  from passthrough_defaults [of sample_fields posix_lib 0 sample_match] sample
  have c: "parse_single_match posix_lib 0 (JObj (AList.delete ''L'' sample_fields))
       = Inr (sample_match\<lparr>name := []\<rparr>)"
    "parse_single_match posix_lib 0 (JObj (AList.delete ''O2I'' sample_fields))
       = Inr (sample_match\<lparr>away_team := (away_team sample_match)\<lparr>id_t := 0\<rparr>\<rparr>)"
    by blast+
  from absent a bare keys b sample c show ?thesis
    by blast
qed

text \<open>The claim as written fails: the scenario record of section 8 without its \<^verbatim>\<open>I\<close>
  field does not normalize.\<close>

theorem record_without_id_fails:
  "parse_single_match posix_lib 0 (JObj (AList.delete ''I'' sample_fields))
     = Inl ValidationError"
  by (simp add: sample_fields_def eval_defs)

text \<open>
  Claim C4. In every normalized match, each bucket holds exactly the constructed
  markets whose type code the table of section 4.2 sends to that bucket, in the
  order of construction; so a constructed market is in at most one bucket, two
  different buckets share no market, a market in a bucket has one of the codes 1, 2,
  8, 15, 17, 19, 62, and the buckets together hold as many markets as were
  constructed with one of these codes.
\<close>

theorem buckets_partition:
  assumes "parse_single_match lib now (JObj d) = Inr m"
  shows "(\<forall>c. bucket c (markets m) =
            filter (recognized c)
              (built_main lib (dict_get d ''E'' (JArr []))
               @ built_additional lib (dict_get d ''AE'' (JArr []))))
       \<and> (\<forall>c c'. c \<noteq> c' \<longrightarrow> set (bucket c (markets m)) \<inter> set (bucket c' (markets m)) = {})
       \<and> (\<forall>c mk. mk \<in> set (bucket c (markets m)) \<longrightarrow>
             classify_spec (type_m mk) = Some c \<and> type_m mk \<in> {1, 2, 8, 15, 17, 19, 62})
       \<and> (\<forall>c mk. type_m mk \<notin> {1, 2, 8, 15, 17, 19, 62} \<longrightarrow> mk \<notin> set (bucket c (markets m)))
       \<and> length (match_result (markets m)) + length (over_under (markets m))
         + length (handicap (markets m)) + length (both_teams_score (markets m))
         + length (correct_score (markets m))
         = length (filter (\<lambda>mk. type_m mk \<in> {1, 2, 8, 15, 17, 19, 62})
              (built_main lib (dict_get d ''E'' (JArr []))
               @ built_additional lib (dict_get d ''AE'' (JArr []))))"
proof -
  let ?built = "built_main lib (dict_get d ''E'' (JArr []))
               @ built_additional lib (dict_get d ''AE'' (JArr []))"
  have b: "bucket c (markets m) = filter (recognized c) ?built" for c
    by (rule match_buckets [OF assms])
  have in_b: "classify_spec (type_m mk) = Some c \<and> type_m mk \<in> {1, 2, 8, 15, 17, 19, 62}"
    if "mk \<in> set (bucket c (markets m))" for c mk
  proof -
    from that have r: "recognized c mk" by (auto simp: b)
    with recognized_codes [OF r] show ?thesis by (simp add: recognized_def)
  qed
  have disj: "set (bucket c (markets m)) \<inter> set (bucket c' (markets m)) = {}" if "c \<noteq> c'" for c c'
  proof -
    have False if "mk \<in> set (bucket c (markets m))" "mk \<in> set (bucket c' (markets m))" for mk
      using in_b [OF that(1)] in_b [OF that(2)] \<open>c \<noteq> c'\<close> by simp
    then show ?thesis by blast
  qed
  have len: "length (match_result (markets m)) + length (over_under (markets m))
         + length (handicap (markets m)) + length (both_teams_score (markets m))
         + length (correct_score (markets m))
         = length (filter (\<lambda>mk. type_m mk \<in> {1, 2, 8, 15, 17, 19, 62}) ?built)"
    using length_filter_recognized [of ?built]
      b [of MatchResult] b [of OverUnder] b [of Handicap] b [of BothTeamsScore] b [of CorrectScore]
    by simp
  from b in_b disj len show ?thesis by blast
qed

theorem buckets_partition_witness:
  "parse_single_match posix_lib 0 (JObj sample_fields) = Inr sample_match
   \<and> set (bucket MatchResult (markets sample_match)) \<inter> set (bucket OverUnder (markets sample_match))
       = {}
   \<and> length (match_result (markets sample_match)) + length (over_under (markets sample_match))
       + length (handicap (markets sample_match)) + length (both_teams_score (markets sample_match))
       + length (correct_score (markets sample_match)) = 3"
proof -
  note t = buckets_partition [OF sample_parse [of 0]]
  have "set (bucket MatchResult (markets sample_match)) \<inter> set (bucket OverUnder (markets sample_match))
       = {}"
    using t [THEN conjunct2, THEN conjunct1, rule_format, of MatchResult OverUnder] by simp
  moreover have "length (match_result (markets sample_match)) + length (over_under (markets sample_match))
       + length (handicap (markets sample_match)) + length (both_teams_score (markets sample_match))
       + length (correct_score (markets sample_match)) = 3"
    by (simp add: sample_match_def)
  ultimately show ?thesis
    using sample_parse [of 0] by simp
qed

text \<open>
  Claim C5. The counts of \<^verbatim>\<open>get_popular_leagues\<close> sum to the number of matches, the
  pairs are in descending order of count, and for every count the leagues with that
  count appear, each once and with its number of matches, in the order in which they
  are first encountered among the matches.
\<close>

theorem league_summary_correct:
  "sum_list (map snd (get_popular_leagues ms)) = int (length ms)
   \<and> sorted_wrt (\<lambda>a b. snd a \<ge> snd b) (get_popular_leagues ms)
   \<and> (\<forall>c. map fst (filter (\<lambda>p. snd p = c) (get_popular_leagues ms)) =
           filter (\<lambda>l. int (count_list (map league ms) l) = c) (first_seen (map league ms)))"
proof (intro conjI allI)
  let ?xs = "count_leagues ms []"
  have "sum_list (map snd (get_popular_leagues ms)) = sum_mset (image_mset snd (mset ?xs))"
    unfolding get_popular_leagues_def sorted_by_count_reverse_def
    by (metis mset_map mset_sort sum_mset_sum_list)
  also have "\<dots> = sum_list (map snd ?xs)"
    by (metis mset_map sum_mset_sum_list)
  finally show "sum_list (map snd (get_popular_leagues ms)) = int (length ms)"
    by (simp add: sum_count_leagues)
next
  have "sorted (map (\<lambda>x. - snd x) (get_popular_leagues ms))"
    unfolding get_popular_leagues_def sorted_by_count_reverse_def by (rule sorted_sort_key)
  then show "sorted_wrt (\<lambda>a b. snd a \<ge> snd b) (get_popular_leagues ms)"
    by (simp add: sorted_map)
next
  fix c :: int
  have "filter (\<lambda>p. snd p = c) (get_popular_leagues ms)
        = filter (\<lambda>p. - snd p = - c) (sort_key (\<lambda>x. - snd x) (count_leagues ms []))"
    by (simp add: get_popular_leagues_def sorted_by_count_reverse_def)
  also have "\<dots> = filter (\<lambda>p. - snd p = - c) (count_leagues ms [])"
    by (rule sort_key_stable)
  finally show "map fst (filter (\<lambda>p. snd p = c) (get_popular_leagues ms)) =
           filter (\<lambda>l. int (count_list (map league ms) l) = c) (first_seen (map league ms))"
    by (simp add: count_leagues_eq filter_map comp_def)
qed

theorem league_summary_correct_witness:
  "get_popular_leagues
     [(bare_match 0)\<lparr>league := ''A''\<rparr>, (bare_match 0)\<lparr>league := ''B''\<rparr>,
      (bare_match 0)\<lparr>league := ''C''\<rparr>, (bare_match 0)\<lparr>league := ''B''\<rparr>]
     = [(''B'', 2), (''A'', 1), (''C'', 1)]
   \<and> sum_list (map snd (get_popular_leagues
       [(bare_match 0)\<lparr>league := ''A''\<rparr>, (bare_match 0)\<lparr>league := ''B''\<rparr>,
        (bare_match 0)\<lparr>league := ''C''\<rparr>, (bare_match 0)\<lparr>league := ''B''\<rparr>])) = 4"
proof -
  let ?ms = "[(bare_match 0)\<lparr>league := ''A''\<rparr>, (bare_match 0)\<lparr>league := ''B''\<rparr>,
      (bare_match 0)\<lparr>league := ''C''\<rparr>, (bare_match 0)\<lparr>league := ''B''\<rparr>]"
  have "get_popular_leagues ?ms = [(''B'', 2), (''A'', 1), (''C'', 1)]"
    by (simp add: get_popular_leagues_def sorted_by_count_reverse_def)
  moreover from league_summary_correct [of ?ms]
  have "sum_list (map snd (get_popular_leagues ?ms)) = int (length ?ms)"
    by (rule conjunct1)
  ultimately show ?thesis by simp
qed

text \<open>
  Claim C6. For thresholds \<open>t1 \<le> t2\<close>, every match returned for \<open>t2\<close> is returned
  for \<open>t1\<close>; a match is returned for \<open>t\<close> exactly when it is in the dataset and one
  of its match_result markets has odds at least \<open>t\<close>.
\<close>

theorem with_min_odds_monotone:
  "(t1 \<le> t2 \<longrightarrow> set (get_matches_with_good_odds ms t2) \<subseteq> set (get_matches_with_good_odds ms t1))
   \<and> (m \<in> set (get_matches_with_good_odds ms t) \<longleftrightarrow>
        m \<in> set ms \<and> (\<exists>market \<in> set (match_result (markets m)). t \<le> odds market))"
  by (auto simp: get_matches_with_good_odds_def list_ex_iff) (meson order_trans)

theorem with_min_odds_monotone_witness:
  "(2::real) \<le> 4
   \<and> set (get_matches_with_good_odds [sample_match, bare_match 0] 4)
       \<subseteq> set (get_matches_with_good_odds [sample_match, bare_match 0] 2)
   \<and> sample_match \<in> set (get_matches_with_good_odds [sample_match, bare_match 0] 4)
   \<and> bare_match 0 \<notin> set (get_matches_with_good_odds [sample_match, bare_match 0] 4)"
proof -
  have le: "(2::real) \<le> 4" by simp
  note t = with_min_odds_monotone [of 2 4 "[sample_match, bare_match 0]" _ 4]
  from t [of sample_match] le
  have sub: "set (get_matches_with_good_odds [sample_match, bare_match 0] 4)
       \<subseteq> set (get_matches_with_good_odds [sample_match, bare_match 0] 2)"
    by blast
  have "\<exists>market \<in> set (match_result (markets sample_match)). 4 \<le> odds market"
    by (simp add: sample_match_def)
  with t [of sample_match]
  have s: "sample_match \<in> set (get_matches_with_good_odds [sample_match, bare_match 0] 4)"
    by simp
  have "\<not> (\<exists>market \<in> set (match_result (markets (bare_match 0))). 4 \<le> odds market)"
    by (simp add: bare_match_def Markets_init_def)
  with t [of "bare_match 0"]
  have b: "bare_match 0 \<notin> set (get_matches_with_good_odds [sample_match, bare_match 0] 4)"
    by simp
  from le sub s b show ?thesis by blast
qed

text \<open>
  Claim C7. When the \<^verbatim>\<open>S\<close> field of a record is absent or zero, the start time of the
  normalized match is the reading of the clock taken during the normalization, so it
  is not earlier than any time that the clock reading is not earlier than; when the
  field is a non-zero number, the start time is what \<^verbatim>\<open>datetime.fromtimestamp\<close>
  returns for it.
\<close>

theorem start_time_fallback:
  fixes now :: "'dt::preorder"
  assumes "parse_single_match lib now (JObj d) = Inr m"
  shows "(map_of d ''S'' = None \<or> map_of d ''S'' = Some (JInt 0) \<or> map_of d ''S'' = Some (JFloat 0)
            \<longrightarrow> start_time m = now \<and> (\<forall>t0. t0 \<le> now \<longrightarrow> t0 \<le> start_time m))
       \<and> (\<forall>n. n \<noteq> 0 \<and> map_of d ''S'' = Some (JInt n) \<longrightarrow>
              fromtimestamp lib (JInt n) = Inr (start_time m))
       \<and> (\<forall>r. r \<noteq> 0 \<and> map_of d ''S'' = Some (JFloat r) \<longrightarrow>
              fromtimestamp lib (JFloat r) = Inr (start_time m))"
  using parse_single_match_Inr(1) [OF assms]
  by (auto simp: dict_get_def truthy_def)

theorem start_time_fallback_witness:
  "parse_single_match posix_lib 1700000100 (JObj (bare_fields [])) = Inr (bare_match 1700000100)
   \<and> map_of (bare_fields []) ''S'' = None
   \<and> start_time (bare_match 1700000100) = 1700000100
   \<and> (1700000000 \<le> start_time (bare_match 1700000100))
   \<and> parse_single_match posix_lib 1700000100 (JObj (bare_fields [(''S'', JInt 0)]))
       = Inr (bare_match 1700000100)
   \<and> map_of (bare_fields [(''S'', JInt 0)]) ''S'' = Some (JInt 0)
   \<and> parse_single_match posix_lib 1700000100 (JObj sample_fields) = Inr sample_match
   \<and> map_of sample_fields ''S'' = Some (JInt 1700000000)
   \<and> fromtimestamp posix_lib (JInt 1700000000) = Inr (start_time sample_match)
   \<and> parse_single_match posix_lib 1700000100 (JObj (bare_fields [(''S'', JFloat 1.5)]))
       = Inr (bare_match 1.5)
   \<and> map_of (bare_fields [(''S'', JFloat 1.5)]) ''S'' = Some (JFloat 1.5)
   \<and> fromtimestamp posix_lib (JFloat 1.5) = Inr (start_time (bare_match 1.5))"
proof -
  note p1 = bare_parse [of 1700000100]
  have k1: "map_of (bare_fields []) ''S'' = None"
    by (simp add: bare_fields_def)
  from start_time_fallback [OF p1] k1
  have a: "start_time (bare_match 1700000100) = 1700000100
           \<and> (\<forall>t0. t0 \<le> (1700000100::real) \<longrightarrow> t0 \<le> start_time (bare_match 1700000100))"
    by blast
  then have a': "1700000000 \<le> start_time (bare_match 1700000100)"
    by simp
  note p2 = zero_timestamp_parse [of 1700000100]
  have k2: "map_of (bare_fields [(''S'', JInt 0)]) ''S'' = Some (JInt 0)"
    by (simp add: bare_fields_def)
  note p3 = sample_parse [of 1700000100]
  have k3: "map_of sample_fields ''S'' = Some (JInt 1700000000)"
    by (simp add: sample_fields_def)
  from start_time_fallback [OF p3] k3
  have c: "fromtimestamp posix_lib (JInt 1700000000) = Inr (start_time sample_match)"
    by simp
  note p4 = float_timestamp_parse [of 1700000100]
  have k4: "map_of (bare_fields [(''S'', JFloat 1.5)]) ''S'' = Some (JFloat 1.5)"
    by (simp add: bare_fields_def)
  from start_time_fallback [OF p4] k4
  have d: "fromtimestamp posix_lib (JFloat 1.5) = Inr (start_time (bare_match 1.5))"
    by simp
  from p1 k1 a a' p2 k2 p3 k3 c p4 k4 d show ?thesis
    by blast
qed

text \<open>
  Claim C8. Every market in a bucket of a normalized match was constructed either from
  an entry of the primary array \<^verbatim>\<open>E\<close> or from an entry of a group of the array \<^verbatim>\<open>AE\<close>.
  A market constructed from a group entry is never a main market, whatever the entry
  carries; a market constructed from a primary entry is a main market exactly when
  the \<^verbatim>\<open>CE\<close> field of the entry equals 1 (as Python compares: \<^verbatim>\<open>1\<close>, \<^verbatim>\<open>1.0\<close> or
  \<^verbatim>\<open>True\<close>). So a main market in a bucket comes from a primary entry whose \<^verbatim>\<open>CE\<close>
  equals 1.
\<close>

theorem is_main_only_primary:
  assumes "parse_single_match lib now (JObj d) = Inr m"
    and "mk \<in> set (bucket c (markets m))"
  shows "((\<exists>f. JObj f \<in> set (items_of (dict_get d ''E'' (JArr [])))
               \<and> main_market lib (JObj f) = Inr mk
               \<and> is_main mk = py_eq_int (dict_get f ''CE'' JNull) 1)
          \<or> (\<exists>g e. g \<in> set (items_of (dict_get d ''AE'' (JArr [])))
               \<and> additional_market lib g e = Inr mk \<and> \<not> is_main mk))
       \<and> (\<forall>g e mk'. additional_market lib g e = Inr mk' \<longrightarrow> \<not> is_main mk')
       \<and> (\<forall>f mk'. main_market lib (JObj f) = Inr mk' \<longrightarrow>
             (is_main mk' \<longleftrightarrow> dict_get f ''CE'' JNull \<in> {JInt 1, JFloat 1, JBool True}))
       \<and> (is_main mk \<longrightarrow>
            (\<exists>f. JObj f \<in> set (items_of (dict_get d ''E'' (JArr [])))
               \<and> main_market lib (JObj f) = Inr mk
               \<and> dict_get f ''CE'' JNull \<in> {JInt 1, JFloat 1, JBool True}))"
proof -
  have add: "\<not> is_main mk'" if "additional_market lib g e = Inr mk'" for g e mk'
    using that by (rule additional_market_not_main)
  have main: "is_main mk' \<longleftrightarrow> dict_get f ''CE'' JNull \<in> {JInt 1, JFloat 1, JBool True}"
    if "main_market lib (JObj f) = Inr mk'" for f mk'
    using main_market_is_main [OF that] by (auto simp: py_eq_int_1)
  from assms(2) have "mk \<in> set (built_main lib (dict_get d ''E'' (JArr [])))
      \<or> mk \<in> set (built_additional lib (dict_get d ''AE'' (JArr [])))"
    by (auto simp: match_buckets [OF assms(1)])
  then have src: "(\<exists>f. JObj f \<in> set (items_of (dict_get d ''E'' (JArr [])))
               \<and> main_market lib (JObj f) = Inr mk
               \<and> is_main mk = py_eq_int (dict_get f ''CE'' JNull) 1)
          \<or> (\<exists>g e. g \<in> set (items_of (dict_get d ''AE'' (JArr [])))
               \<and> additional_market lib g e = Inr mk \<and> \<not> is_main mk)"
  proof
    assume "mk \<in> set (built_main lib (dict_get d ''E'' (JArr [])))"
    then obtain e where e: "e \<in> set (items_of (dict_get d ''E'' (JArr [])))"
      and mk: "main_market lib e = Inr mk"
      by (auto simp: in_built_main)
    from main_market_is_main [OF mk] obtain f where "e = JObj f"
      and "is_main mk = py_eq_int (dict_get f ''CE'' JNull) 1"
      by blast
    with e mk show ?thesis by blast
  next
    assume "mk \<in> set (built_additional lib (dict_get d ''AE'' (JArr [])))"
    then obtain g where g: "g \<in> set (items_of (dict_get d ''AE'' (JArr [])))"
      and "mk \<in> set (built_group lib g)"
      by (auto simp: in_built_additional)
    then obtain e where mk: "additional_market lib g e = Inr mk"
      by (blast dest: in_built_group)
    with g add [OF mk] show ?thesis by blast
  qed
  have only: "\<exists>f. JObj f \<in> set (items_of (dict_get d ''E'' (JArr [])))
               \<and> main_market lib (JObj f) = Inr mk
               \<and> dict_get f ''CE'' JNull \<in> {JInt 1, JFloat 1, JBool True}" if "is_main mk"
    using src that main by blast
  from src add main only show ?thesis by blast
qed

theorem is_main_only_primary_witness:
  "\<exists>f. JObj f \<in> set (items_of (dict_get
          (bare_fields
            [(''E'', JArr [JObj [(''G'', JInt 1), (''T'', JInt 1), (''C'', JFloat 2),
                                (''CE'', JInt 1)]]),
             (''AE'', JArr [JObj [(''G'', JInt 15),
                (''ME'', JArr [JObj [(''T'', JInt 9), (''C'', JFloat 1.9), (''P'', JFloat 2.5),
                                    (''CE'', JInt 1)]])]])])
          ''E'' (JArr [])))
      \<and> main_market posix_lib (JObj f)
          = Inr \<lparr>type_m = 1, outcome = 1, odds = 2, parameter = None, is_main = True\<rparr>
      \<and> dict_get f ''CE'' JNull \<in> {JInt 1, JFloat 1, JBool True}"
proof -
  let ?mk = "\<lparr>type_m = 1, outcome = 1, odds = 2, parameter = None, is_main = True\<rparr>"
  note p = markets_parse [of 0]
  have "?mk \<in> set (bucket MatchResult (markets ((bare_match 0)\<lparr>markets :=
       \<lparr>match_result = [?mk],
        over_under =
          [\<lparr>type_m = 15, outcome = 9, odds = 1.9, parameter = Some 2.5, is_main = False\<rparr>],
        handicap = [], both_teams_score = [], correct_score = []\<rparr>\<rparr>)))"
    by simp
  from is_main_only_primary [OF p this] show ?thesis
    by simp
qed

text \<open>
  Claim C9. A response without the \<^verbatim>\<open>Value\<close> key, or whose \<^verbatim>\<open>Value\<close> is an empty array,
  constructs a parser with no matches and raises nothing. The result depends on the
  response only through its \<^verbatim>\<open>Value\<close> entry: two responses that agree on it give the
  same result, so setting or removing \<^verbatim>\<open>Error\<close>, \<^verbatim>\<open>ErrorCode\<close> or \<^verbatim>\<open>Success\<close> changes
  nothing.
\<close>

theorem empty_response_parses:
  "(map_of resp ''Value'' = None \<or> map_of resp ''Value'' = Some (JArr [])
      \<longrightarrow> BettingDataParser_init lib clock resp = Inr [])
   \<and> (map_of resp ''Value'' = map_of resp' ''Value''
      \<longrightarrow> BettingDataParser_init lib clock resp = BettingDataParser_init lib clock resp')
   \<and> (k \<in> {''Error'', ''ErrorCode'', ''Success''} \<longrightarrow>
        BettingDataParser_init lib clock (AList.update k v resp)
          = BettingDataParser_init lib clock resp
      \<and> BettingDataParser_init lib clock (AList.delete k resp)
          = BettingDataParser_init lib clock resp)"
  by (auto simp: BettingDataParser_init_def parse_matches_Value py_iter_def update_conv'
      delete_conv')

theorem empty_response_parses_witness:
  "map_of [(''Error'', JStr ''down''), (''ErrorCode'', JInt 7), (''Success'', JBool False)]
      ''Value'' = None
   \<and> BettingDataParser_init posix_lib real
        [(''Error'', JStr ''down''), (''ErrorCode'', JInt 7), (''Success'', JBool False)] = Inr []
   \<and> BettingDataParser_init posix_lib real [(''Value'', JArr [])] = Inr []
   \<and> BettingDataParser_init posix_lib real
        (AList.update ''Success'' (JBool False) [(''Value'', JArr [JObj sample_fields])])
      = BettingDataParser_init posix_lib real [(''Value'', JArr [JObj sample_fields])]"
proof -
  let ?r = "[(''Error'', JStr ''down''), (''ErrorCode'', JInt 7), (''Success'', JBool False)]"
  have k: "map_of ?r ''Value'' = None" by simp
  from empty_response_parses [of ?r posix_lib real] k
  have a: "BettingDataParser_init posix_lib real ?r = Inr []" by blast
  have "map_of [(''Value'', JArr [])] ''Value'' = Some (JArr [])" by simp
  with empty_response_parses [of "[(''Value'', JArr [])]" posix_lib real]
  have b: "BettingDataParser_init posix_lib real [(''Value'', JArr [])] = Inr []" by blast
  have "''Success'' \<in> {''Error'', ''ErrorCode'', ''Success''}" by simp
  with empty_response_parses
    [of "[(''Value'', JArr [JObj sample_fields])]" posix_lib real _ "''Success''" "JBool False"]
  have c: "BettingDataParser_init posix_lib real
        (AList.update ''Success'' (JBool False) [(''Value'', JArr [JObj sample_fields])])
      = BettingDataParser_init posix_lib real [(''Value'', JArr [JObj sample_fields])]"
    by blast
  from k a b c show ?thesis by blast
qed

text \<open>
  Claim C10, as amended. The weather of a normalized match is absent exactly when the
  misc-info list \<^verbatim>\<open>MIS\<close> has no entry whose \<^verbatim>\<open>K\<close> equals one of 9, 21, 23, 25, 27, 35;
  so it is absent for an empty list and for a list with only unmapped keys, and it is
  present as soon as one mapped key occurs, whether or not that entry carries a value.
\<close>

theorem weather_absent_iff:
  assumes "parse_single_match lib now (JObj d) = Inr m"
  shows "weather m = None \<longleftrightarrow>
     (\<forall>item \<in> set (items_of (dict_get d ''MIS'' (JArr []))). \<not> weather_key_mapped item)"
  using parse_weather_None_iff [OF parse_single_match_Inr(5) [OF assms]] .

theorem weather_absent_iff_witness:
  "parse_single_match posix_lib 0 (JObj sample_fields) = Inr sample_match
   \<and> weather sample_match = None
   \<and> list_all (\<lambda>item. \<not> weather_key_mapped item)
        (items_of (dict_get sample_fields ''MIS'' (JArr [])))
   \<and> list_ex weather_key_mapped
        (items_of (dict_get (bare_fields [(''MIS'', JArr [JObj [(''K'', JInt 9)]])])
           ''MIS'' (JArr [])))"
proof -
  note p = sample_parse [of 0]
  have n: "weather sample_match = None"
    by (simp add: sample_match_def)
  with weather_absent_iff [OF p]
  have a: "list_all (\<lambda>item. \<not> weather_key_mapped item)
        (items_of (dict_get sample_fields ''MIS'' (JArr [])))"
    by (simp add: list_all_iff)
  from weather_absent_iff [OF weather_parse [of 0]]
  have b: "list_ex weather_key_mapped
        (items_of (dict_get (bare_fields [(''MIS'', JArr [JObj [(''K'', JInt 9)]])])
           ''MIS'' (JArr [])))"
    by (simp add: list_ex_iff)
  from p n a b show ?thesis by blast
qed

text \<open>The claim as written fails in its last part: the record
  \<^verbatim>\<open>{"I": 7, "MIS": [{"K": 9}]}\<close> normalizes to a match whose weather is present and
  has no populated field.\<close>

theorem weather_present_without_value:
  "parse_single_match posix_lib 0
     (JObj [(''I'', JInt 7), (''MIS'', JArr [JObj [(''K'', JInt 9)]])])
   = Inr ((bare_match 0)\<lparr>weather :=
       Some \<lparr>temperature = None, condition = None, humidity = None, wind_speed = None,
             pressure = None, precipitation = None\<rparr>\<rparr>)"
  using weather_parse [of 0] by (simp add: bare_fields_def)

end
